theory Spec2Isabelle
  imports Main "HOL-Library.Word"
begin

section \<open>Data model\<close>

text \<open>Go's \<open>uint64\<close>: arithmetic wraps modulo \<open>2 ^ 64\<close>.\<close>

type_synonym u64 = "64 word"

text \<open>\<open>math.MaxUint64\<close>.\<close>

definition MaxUint64 :: u64 where
  "MaxUint64 = 18446744073709551615"

text \<open>
  The error values of the package: \<open>*ParamError\<close> (field, message), \<open>*FeeError\<close>
  (reason), \<open>*MinUTxOError\<close> (reason) and the untyped error built by \<open>fmt.Errorf\<close>
  (its text).
\<close>

datatype error =
    ParamError string string
  | FeeError string
  | MinUTxOError string
  | Errorf string

text \<open>The \<open>%d\<close> verb of \<open>fmt\<close> on an unsigned value: its decimal digits.\<close>

fun fmt_d :: "nat \<Rightarrow> string" where
  "fmt_d n =
     (if n < 10 then [char_of (48 + n)]
      else fmt_d (n div 10) @ [char_of (48 + n mod 10)])"

declare fmt_d.simps [simp del]

text \<open>params.go: \<open>ProtocolParams\<close>, \<open>DefaultMainnetParams\<close>, \<open>Validate\<close>.\<close>

record ProtocolParams =
  MinFeeA :: u64
  MinFeeB :: u64
  CoinsPerUTxOByte :: u64
  MaxTxSize :: u64

definition DefaultMainnetParams :: ProtocolParams where
  "DefaultMainnetParams =
     \<lparr>MinFeeA = 44, MinFeeB = 155381, CoinsPerUTxOByte = 4310, MaxTxSize = 16384\<rparr>"

text \<open>\<open>Validate\<close> returns \<open>nil\<close> (here \<open>None\<close>) or the first field that is zero.\<close>

definition Validate :: "ProtocolParams \<Rightarrow> error option" where
  "Validate p =
     (if MinFeeA p = 0 then Some (ParamError ''MinFeeA'' ''must be non-zero'')
      else if MinFeeB p = 0 then Some (ParamError ''MinFeeB'' ''must be non-zero'')
      else if CoinsPerUTxOByte p = 0 then
        Some (ParamError ''CoinsPerUTxOByte'' ''must be non-zero'')
      else if MaxTxSize p = 0 then Some (ParamError ''MaxTxSize'' ''must be non-zero'')
      else None)"

section \<open>Fee calculator\<close>

text \<open>
  A Go result \<open>(uint64, error)\<close> is a sum: \<open>Inl\<close> the error, \<open>Inr\<close> the value returned
  with a \<open>nil\<close> error.
\<close>

definition MinFee :: "ProtocolParams \<Rightarrow> u64 \<Rightarrow> error + u64" where
  "MinFee p txSizeBytes =
     (case Validate p of
        Some err \<Rightarrow> Inl err
      | None \<Rightarrow>
          if txSizeBytes = 0 then Inl (FeeError ''txSizeBytes must be greater than zero'')
          else if txSizeBytes > MaxTxSize p then
            Inl (FeeError (''txSizeBytes '' @ fmt_d (unat txSizeBytes) @
                           '' exceeds MaxTxSize '' @ fmt_d (unat (MaxTxSize p))))
          else Inr (MinFeeA p * txSizeBytes + MinFeeB p))"

definition MinFeeWithPadding :: "ProtocolParams \<Rightarrow> u64 \<Rightarrow> u64 \<Rightarrow> error + u64" where
  "MinFeeWithPadding p txSizeBytes paddingBytes = MinFee p (txSizeBytes + paddingBytes)"

text \<open>The calibration constants local to \<open>EstimateFee\<close>.\<close>

definition baseTxSize :: u64 where "baseTxSize = 200"
definition bytesPerInput :: u64 where "bytesPerInput = 140"
definition bytesPerOutput :: u64 where "bytesPerOutput = 65"
definition metadataSize :: u64 where "metadataSize = 250"

definition EstimateFee :: "ProtocolParams \<Rightarrow> u64 \<Rightarrow> u64 \<Rightarrow> bool \<Rightarrow> error + u64" where
  "EstimateFee p numInputs numOutputs hasMetadata =
     (case Validate p of
        Some err \<Rightarrow> Inl err
      | None \<Rightarrow>
          if numInputs = 0 then Inl (FeeError ''numInputs must be at least 1'')
          else if numOutputs = 0 then Inl (FeeError ''numOutputs must be at least 1'')
          else
            let estimated = baseTxSize + bytesPerInput * numInputs + bytesPerOutput * numOutputs;
                estimated = (if hasMetadata then estimated + metadataSize else estimated)
            in MinFee p estimated)"

section \<open>MinUTxO calculator\<close>

record OutputSize =
  AddressBytes :: u64
  NumPolicies :: u64
  NumAssets :: u64
  TotalAssetNameBytes :: u64
  HasDatumHash :: bool
  HasInlineDatum :: bool
  InlineDatumBytes :: u64
  HasScriptRef :: bool
  ScriptRefBytes :: u64

text \<open>The constants local to \<open>EstimateOutputBytes\<close>.\<close>

definition envelopeOverhead :: u64 where "envelopeOverhead = 10"
definition adaValueBytes :: u64 where "adaValueBytes = 9"
definition policyHashBytes :: u64 where "policyHashBytes = 28"
definition perAssetOverhead :: u64 where "perAssetOverhead = 12"
definition perAssetIntBytes :: u64 where "perAssetIntBytes = 5"
definition tokenBundleFixed :: u64 where "tokenBundleFixed = 5"
definition datumHashBytes :: u64 where "datumHashBytes = 32"

text \<open>Each \<open>total += ...\<close> of the source is one rebinding of \<open>total\<close>.\<close>

definition EstimateOutputBytes :: "OutputSize \<Rightarrow> u64" where
  "EstimateOutputBytes out =
     (let total = envelopeOverhead + AddressBytes out + adaValueBytes;
          total =
            (if NumAssets out > 0 \<or> NumPolicies out > 0 then
               let total = total + tokenBundleFixed;
                   total = total + policyHashBytes * NumPolicies out;
                   total = total + perAssetOverhead * NumAssets out;
                   total = total + TotalAssetNameBytes out;
                   total = total + perAssetIntBytes * NumAssets out
               in total
             else total);
          total = (if HasDatumHash out then total + datumHashBytes else total);
          total = (if HasInlineDatum out then total + InlineDatumBytes out else total);
          total = (if HasScriptRef out then total + ScriptRefBytes out else total)
      in total)"

definition MinUTxOFromBytes :: "ProtocolParams \<Rightarrow> u64 \<Rightarrow> error + u64" where
  "MinUTxOFromBytes p serializedOutputBytes =
     (case Validate p of
        Some err \<Rightarrow> Inl err
      | None \<Rightarrow>
          if serializedOutputBytes = 0 then
            Inl (MinUTxOError ''serializedOutputBytes must be greater than zero'')
          else Inr ((160 + serializedOutputBytes) * CoinsPerUTxOByte p))"

definition MinUTxO :: "ProtocolParams \<Rightarrow> OutputSize \<Rightarrow> error + u64" where
  "MinUTxO p out =
     (case Validate p of
        Some err \<Rightarrow> Inl err
      | None \<Rightarrow> let serialized = EstimateOutputBytes out in MinUTxOFromBytes p serialized)"

text \<open>
  A Go composite literal leaves the fields it does not name at their zero value:
  \<open>OutputSize{AddressBytes: 57}\<close> is \<open>zeroOutputSize\<close> with one field set.
\<close>

definition zeroOutputSize :: OutputSize where
  "zeroOutputSize =
     \<lparr>AddressBytes = 0, NumPolicies = 0, NumAssets = 0, TotalAssetNameBytes = 0,
      HasDatumHash = False, HasInlineDatum = False, InlineDatumBytes = 0,
      HasScriptRef = False, ScriptRefBytes = 0\<rparr>"

definition MinUTxOADAOnly :: "ProtocolParams \<Rightarrow> error + u64" where
  "MinUTxOADAOnly p = MinUTxO p (zeroOutputSize\<lparr>AddressBytes := 57\<rparr>)"

definition MinUTxOForNFT :: "ProtocolParams \<Rightarrow> u64 \<Rightarrow> error + u64" where
  "MinUTxOForNFT p assetNameLen =
     (if assetNameLen > 32 then
        Inl (MinUTxOError (''assetNameLen '' @ fmt_d (unat assetNameLen) @
                           '' exceeds maximum of 32 bytes''))
      else MinUTxO p (zeroOutputSize\<lparr>AddressBytes := 57, NumPolicies := 1, NumAssets := 1,
                                     TotalAssetNameBytes := assetNameLen\<rparr>))"

definition MinUTxOForBundle :: "ProtocolParams \<Rightarrow> u64 \<Rightarrow> u64 \<Rightarrow> u64 \<Rightarrow> error + u64" where
  "MinUTxOForBundle p numPolicies numAssets totalAssetNameBytes =
     (if numPolicies = 0 then Inl (MinUTxOError ''numPolicies must be at least 1'')
      else if numAssets = 0 then Inl (MinUTxOError ''numAssets must be at least 1'')
      else MinUTxO p (zeroOutputSize\<lparr>AddressBytes := 57, NumPolicies := numPolicies,
                                     NumAssets := numAssets,
                                     TotalAssetNameBytes := totalAssetNameBytes\<rparr>))"

section \<open>Lovelace utilities\<close>

definition AddLovelace :: "u64 \<Rightarrow> u64 \<Rightarrow> error + u64" where
  "AddLovelace a b =
     (if a > MaxUint64 - b then
        Inl (Errorf (''fees: AddLovelace: overflow adding '' @ fmt_d (unat a) @ '' + '' @
                     fmt_d (unat b)))
      else Inr (a + b))"

text \<open>
  The \<open>for ... range values\<close> loop of \<open>SumLovelace\<close>, with the running \<open>total\<close> (here \<open>tot\<close>) as
  the accumulator; the function itself starts it at zero.
\<close>

fun SumLovelace_loop :: "u64 \<Rightarrow> u64 list \<Rightarrow> error + u64" where
  "SumLovelace_loop tot [] = Inr tot"
| "SumLovelace_loop tot (v # values) =
     (case AddLovelace tot v of
        Inl err \<Rightarrow> Inl err
      | Inr tot' \<Rightarrow> SumLovelace_loop tot' values)"

definition SumLovelace :: "u64 list \<Rightarrow> error + u64" where
  "SumLovelace values = SumLovelace_loop 0 values"

text \<open>\<open>IsAboveMinUTxO\<close> returns \<open>(bool, uint64, error)\<close>.\<close>

definition IsAboveMinUTxO :: "ProtocolParams \<Rightarrow> u64 \<Rightarrow> OutputSize \<Rightarrow> error + (bool \<times> u64)" where
  "IsAboveMinUTxO p lovelace out =
     (case MinUTxO p out of
        Inl err \<Rightarrow> Inl err
      | Inr required \<Rightarrow> Inr (lovelace \<ge> required, required))"

section \<open>The formulas over unbounded integers\<close>

text \<open>
  The specification reads every formula over the integers. The definitions of this
  section are that reading, for comparison with the \<open>uint64\<close> code above; none of
  them is part of the program.
\<close>

text \<open>The size estimate of \<open>EstimateFee\<close>, over the natural numbers.\<close>

definition estimated_size_exact :: "u64 \<Rightarrow> u64 \<Rightarrow> bool \<Rightarrow> nat" where
  "estimated_size_exact numInputs numOutputs hasMetadata =
     200 + 140 * unat numInputs + 65 * unat numOutputs + (if hasMetadata then 250 else 0)"

text \<open>The byte estimate of \<open>EstimateOutputBytes\<close>, over the natural numbers.\<close>

definition output_bytes_exact :: "OutputSize \<Rightarrow> nat" where
  "output_bytes_exact out =
     10 + unat (AddressBytes out) + 9 +
     (if NumAssets out > 0 \<or> NumPolicies out > 0 then
        5 + 28 * unat (NumPolicies out) + 12 * unat (NumAssets out) +
        unat (TotalAssetNameBytes out) + 5 * unat (NumAssets out)
      else 0) +
     (if HasDatumHash out then 32 else 0) +
     (if HasInlineDatum out then unat (InlineDatumBytes out) else 0) +
     (if HasScriptRef out then unat (ScriptRefBytes out) else 0)"

text \<open>
  The same estimate for the output that \<open>MinUTxOForBundle\<close> builds: a 57-byte
  address and a token bundle.
\<close>

definition bundle_bytes_exact :: "u64 \<Rightarrow> u64 \<Rightarrow> u64 \<Rightarrow> nat" where
  "bundle_bytes_exact numPolicies numAssets totalAssetNameBytes =
     10 + 57 + 9 + 5 + 28 * unat numPolicies + 12 * unat numAssets +
     unat totalAssetNameBytes + 5 * unat numAssets"

text \<open>
  \<open>MinFee\<close> as the specification words it (section 4.2), on a size that is a natural
  number: it fails for invalid parameters, for size zero and for a size above
  \<open>MaxTxSize\<close>, and otherwise returns \<open>MinFeeA * size + MinFeeB\<close> over the integers.
  \<open>MinFeeWithPadding_spec\<close> is \<open>MinFee_spec\<close> on the padded total.
\<close>

definition MinFee_spec :: "ProtocolParams \<Rightarrow> nat \<Rightarrow> error + nat" where
  "MinFee_spec p txSizeBytes =
     (case Validate p of
        Some err \<Rightarrow> Inl err
      | None \<Rightarrow>
          if txSizeBytes = 0 then Inl (FeeError ''txSizeBytes must be greater than zero'')
          else if txSizeBytes > unat (MaxTxSize p) then
            Inl (FeeError (''txSizeBytes '' @ fmt_d txSizeBytes @
                           '' exceeds MaxTxSize '' @ fmt_d (unat (MaxTxSize p))))
          else Inr (unat (MinFeeA p) * txSizeBytes + unat (MinFeeB p)))"

definition MinFeeWithPadding_spec :: "ProtocolParams \<Rightarrow> u64 \<Rightarrow> u64 \<Rightarrow> error + nat" where
  "MinFeeWithPadding_spec p txSizeBytes paddingBytes =
     MinFee_spec p (unat txSizeBytes + unat paddingBytes)"

text \<open>
  \<open>SumLovelace\<close> as the specification words it (section 4.4): the left fold of
  \<open>AddLovelace\<close> from zero, an error staying an error. \<open>prefix_sum i values\<close> is the
  sum of the first \<open>i\<close> amounts over the natural numbers.
\<close>

definition SumLovelace_fold :: "u64 list \<Rightarrow> error + u64" where
  "SumLovelace_fold values =
     foldl (\<lambda>acc v. case acc of Inl err \<Rightarrow> Inl err | Inr tot \<Rightarrow> AddLovelace tot v)
       (Inr 0) values"

definition prefix_sum :: "nat \<Rightarrow> u64 list \<Rightarrow> nat" where
  "prefix_sum i values = sum_list (map unat (take i values))"

section \<open>Basic facts about validation and the formulas\<close>

lemma Validate_None_iff:
  "Validate p = None \<longleftrightarrow>
     MinFeeA p \<noteq> 0 \<and> MinFeeB p \<noteq> 0 \<and> CoinsPerUTxOByte p \<noteq> 0 \<and> MaxTxSize p \<noteq> 0"
  by (simp add: Validate_def)

lemma Validate_Some_ParamError:
  "Validate p = Some e \<Longrightarrow> \<exists>f m. e = ParamError f m"
  by (auto simp: Validate_def split: if_splits)

lemma valid_mainnet: "Validate DefaultMainnetParams = None"
  by (simp add: Validate_def DefaultMainnetParams_def)

lemma MinFee_invalid: "Validate p = Some e \<Longrightarrow> MinFee p n = Inl e"
  by (simp add: MinFee_def)

lemma MinFee_valid:
  "Validate p = None \<Longrightarrow>
   MinFee p n =
     (if n = 0 then Inl (FeeError ''txSizeBytes must be greater than zero'')
      else if n > MaxTxSize p then
        Inl (FeeError (''txSizeBytes '' @ fmt_d (unat n) @
                       '' exceeds MaxTxSize '' @ fmt_d (unat (MaxTxSize p))))
      else Inr (MinFeeA p * n + MinFeeB p))"
  by (simp add: MinFee_def)

lemma MinFee_Inr:
  "MinFee p n = Inr v \<Longrightarrow>
   Validate p = None \<and> n \<noteq> 0 \<and> n \<le> MaxTxSize p \<and> v = MinFeeA p * n + MinFeeB p"
  by (auto simp: MinFee_def split: option.splits if_splits)

lemma MinUTxOFromBytes_valid:
  "Validate p = None \<Longrightarrow>
   MinUTxOFromBytes p n =
     (if n = 0 then Inl (MinUTxOError ''serializedOutputBytes must be greater than zero'')
      else Inr ((160 + n) * CoinsPerUTxOByte p))"
  by (simp add: MinUTxOFromBytes_def)

lemma MinUTxOFromBytes_zero: "isl (MinUTxOFromBytes p 0)"
  by (simp add: MinUTxOFromBytes_def split: option.split)

lemma MinUTxOFromBytes_Inr:
  "MinUTxOFromBytes p n = Inr v \<Longrightarrow>
   Validate p = None \<and> n \<noteq> 0 \<and> v = (160 + n) * CoinsPerUTxOByte p"
  by (auto simp: MinUTxOFromBytes_def split: option.splits if_splits)

lemma MinUTxO_valid:
  "Validate p = None \<Longrightarrow>
   MinUTxO p out =
     (if EstimateOutputBytes out = 0 then
        Inl (MinUTxOError ''serializedOutputBytes must be greater than zero'')
      else Inr ((160 + EstimateOutputBytes out) * CoinsPerUTxOByte p))"
  by (simp add: MinUTxO_def MinUTxOFromBytes_valid)

lemma MinUTxO_Inr:
  "MinUTxO p out = Inr v \<Longrightarrow>
   Validate p = None \<and> EstimateOutputBytes out \<noteq> 0 \<and>
   v = (160 + EstimateOutputBytes out) * CoinsPerUTxOByte p"
  by (auto simp: MinUTxO_def Let_def dest: MinUTxOFromBytes_Inr split: option.splits)

lemma one_le_word_iff: "(1::u64) \<le> n \<longleftrightarrow> n \<noteq> 0"
  by (simp add: word_le_nat_alt unat_gt_0 Suc_le_eq)

lemma unat_valid_pos:
  assumes "Validate p = None"
  shows "0 < unat (MinFeeA p)" and "0 < unat (CoinsPerUTxOByte p)"
  using assms by (simp_all add: Validate_None_iff unat_gt_0)

section \<open>The \<open>uint64\<close> results against the unbounded formulas\<close>

lemma unat_fee: "unat (a * n + b :: u64) = (unat a * unat n + unat b) mod 2 ^ 64"
  by (simp add: unat_word_ariths mod_simps)

lemma unat_minutxo: "unat ((160 + n) * c :: u64) = ((160 + unat n) * unat c) mod 2 ^ 64"
  by (simp add: unat_word_ariths mod_simps)

lemma unat_estimated:
  "unat (200 + 140 * ni + 65 * no + (if m then 250 else 0) :: u64) =
     estimated_size_exact ni no m mod 2 ^ 64"
  by (simp add: estimated_size_exact_def unat_word_ariths mod_simps)

lemmas EstimateOutputBytes_consts =
  envelopeOverhead_def adaValueBytes_def policyHashBytes_def perAssetOverhead_def
  perAssetIntBytes_def tokenBundleFixed_def datumHashBytes_def

lemma EstimateOutputBytes_of_nat:
  "EstimateOutputBytes out = word_of_nat (output_bytes_exact out)"
  by (simp add: EstimateOutputBytes_def output_bytes_exact_def Let_def
      EstimateOutputBytes_consts)

lemma unat_EstimateOutputBytes:
  "unat (EstimateOutputBytes out) = output_bytes_exact out mod 2 ^ 64"
  by (simp add: EstimateOutputBytes_of_nat unat_of_nat)

lemma output_bytes_exact_ge: "19 \<le> output_bytes_exact out"
  by (simp add: output_bytes_exact_def)

lemma EstimateOutputBytes_fits:
  assumes "output_bytes_exact out < 2 ^ 64"
  shows "unat (EstimateOutputBytes out) = output_bytes_exact out"
    and "EstimateOutputBytes out \<noteq> 0"
proof -
  from assms show u: "unat (EstimateOutputBytes out) = output_bytes_exact out"
    by (simp add: unat_EstimateOutputBytes)
  from output_bytes_exact_ge [of out] u have "unat (EstimateOutputBytes out) \<noteq> 0" by simp
  then show "EstimateOutputBytes out \<noteq> 0" by (simp add: unat_eq_zero)
qed

lemma mult_ge_self:
  fixes c n k :: nat
  assumes "0 < c" and "(k + n) * c < b"
  shows "n < b"
proof -
  from assms(1) have "n \<le> n * c" by simp
  also have "\<dots> \<le> (k + n) * c" by (simp add: add_mult_distrib)
  finally show ?thesis using assms(2) by simp
qed

lemma MinUTxO_exact:
  assumes "MinUTxO p out = Inr v"
    and "(160 + output_bytes_exact out) * unat (CoinsPerUTxOByte p) < 2 ^ 64"
  shows "unat v = (160 + output_bytes_exact out) * unat (CoinsPerUTxOByte p)"
proof -
  from MinUTxO_Inr [OF assms(1)] have v: "Validate p = None"
    and r: "v = (160 + EstimateOutputBytes out) * CoinsPerUTxOByte p" by simp_all
  from unat_valid_pos(2) [OF v] assms(2) have "output_bytes_exact out < 2 ^ 64"
    by (rule mult_ge_self)
  then have "unat (EstimateOutputBytes out) = output_bytes_exact out"
    by (rule EstimateOutputBytes_fits)
  with r assms(2) show ?thesis by (simp add: unat_minutxo)
qed

lemma MinUTxO_succeeds:
  assumes "Validate p = None" and "output_bytes_exact out < 2 ^ 64"
  shows "MinUTxO p out = Inr ((160 + EstimateOutputBytes out) * CoinsPerUTxOByte p)"
  using assms EstimateOutputBytes_fits(2) [OF assms(2)] by (simp add: MinUTxO_valid)

lemma EstimateFee_Inr:
  "EstimateFee p ni no m = Inr f \<Longrightarrow>
   Validate p = None \<and> ni \<noteq> 0 \<and> no \<noteq> 0 \<and>
   MinFee p (200 + 140 * ni + 65 * no + (if m then 250 else 0)) = Inr f"
  by (auto simp: EstimateFee_def Let_def baseTxSize_def bytesPerInput_def bytesPerOutput_def
      metadataSize_def split: option.splits if_splits)

lemma EstimateFee_exact:
  assumes "EstimateFee p ni no m = Inr f"
    and "unat (MinFeeA p) * estimated_size_exact ni no m + unat (MinFeeB p) < 2 ^ 64"
  shows "unat f = unat (MinFeeA p) * estimated_size_exact ni no m + unat (MinFeeB p)"
proof -
  let ?sz = "200 + 140 * ni + 65 * no + (if m then 250 else 0) :: u64"
  from EstimateFee_Inr [OF assms(1)] have v: "Validate p = None"
    and mf: "MinFee p ?sz = Inr f" by simp_all
  from MinFee_Inr [OF mf] have r: "f = MinFeeA p * ?sz + MinFeeB p" by simp
  have "estimated_size_exact ni no m \<le> unat (MinFeeA p) * estimated_size_exact ni no m"
    using unat_valid_pos(1) [OF v] by simp
  with assms(2) have "estimated_size_exact ni no m < 2 ^ 64" by linarith
  then have "unat ?sz = estimated_size_exact ni no m"
    by (simp only: unat_estimated mod_less)
  with r assms(2) show ?thesis by (simp only: unat_fee mod_less)
qed

section \<open>Checked addition and the summation loop\<close>

lemma unat_MaxUint64: "unat MaxUint64 = 2 ^ 64 - 1"
  by (simp add: MaxUint64_def)

lemma unat_MaxUint64_minus: "unat (MaxUint64 - b) = 2 ^ 64 - 1 - unat b"
proof -
  have "unat b < 2 ^ 64" using unsigned_less [of b] by simp
  then have "b \<le> MaxUint64" by (simp add: word_le_nat_alt unat_MaxUint64)
  then show ?thesis by (simp add: unat_sub unat_MaxUint64)
qed

lemma AddLovelace_overflow_iff:
  "a > MaxUint64 - b \<longleftrightarrow> 2 ^ 64 \<le> unat a + unat b"
proof -
  have "unat b < 2 ^ 64" using unsigned_less [of b] by simp
  then show ?thesis
    by (simp add: word_less_nat_alt unat_MaxUint64_minus) arith
qed

lemma AddLovelace_fits:
  assumes "unat a + unat b < 2 ^ 64"
  shows "AddLovelace a b = Inr (a + b)" and "unat (a + b) = unat a + unat b"
proof -
  from assms show "AddLovelace a b = Inr (a + b)"
    by (simp add: AddLovelace_def AddLovelace_overflow_iff)
  from assms show "unat (a + b) = unat a + unat b"
    using unat_add_lem [of a b] by simp
qed

lemma AddLovelace_overflows:
  assumes "2 ^ 64 \<le> unat a + unat b"
  shows "AddLovelace a b =
           Inl (Errorf (''fees: AddLovelace: overflow adding '' @ fmt_d (unat a) @ '' + '' @
                        fmt_d (unat b)))"
  using assms by (simp add: AddLovelace_def AddLovelace_overflow_iff)

lemma foldl_step_Inl:
  "foldl (\<lambda>acc v. case acc of Inl err \<Rightarrow> Inl err | Inr tot \<Rightarrow> AddLovelace tot v) (Inl e) vs
     = Inl e"
  by (induction vs) simp_all

lemma loop_is_foldl:
  "SumLovelace_loop t vs =
     foldl (\<lambda>acc v. case acc of Inl err \<Rightarrow> Inl err | Inr tot \<Rightarrow> AddLovelace tot v) (Inr t) vs"
proof (induction vs arbitrary: t)
  case Nil
  show ?case by simp
next
  case (Cons v vs)
  show ?case
  proof (cases "AddLovelace t v")
    case (Inl e)
    then show ?thesis by (simp add: foldl_step_Inl)
  next
    case (Inr t')
    then show ?thesis by (simp add: Cons.IH)
  qed
qed

lemma loop_fits:
  "unat t + sum_list (map unat vs) < 2 ^ 64 \<Longrightarrow>
   \<exists>r. SumLovelace_loop t vs = Inr r \<and> unat r = unat t + sum_list (map unat vs)"
proof (induction vs arbitrary: t)
  case Nil
  then show ?case by simp
next
  case (Cons v vs)
  from Cons.prems have f: "unat t + unat v < 2 ^ 64" by simp
  note a = AddLovelace_fits [OF f]
  from Cons.prems a(2) have "unat (t + v) + sum_list (map unat vs) < 2 ^ 64" by simp
  from Cons.IH [OF this] a show ?case by (simp add: add.assoc)
qed

lemma loop_overflows:
  "i < length vs \<Longrightarrow> unat t + prefix_sum i vs < 2 ^ 64 \<Longrightarrow>
   2 ^ 64 \<le> unat t + prefix_sum (Suc i) vs \<Longrightarrow>
   SumLovelace_loop t vs =
     Inl (Errorf (''fees: AddLovelace: overflow adding '' @ fmt_d (unat t + prefix_sum i vs) @
                  '' + '' @ fmt_d (unat (vs ! i))))"
proof (induction vs arbitrary: t i)
  case Nil
  then show ?case by simp
next
  case (Cons v vs)
  show ?case
  proof (cases i)
    case 0
    with Cons.prems have "2 ^ 64 \<le> unat t + unat v" by (simp add: prefix_sum_def)
    from AddLovelace_overflows [OF this] 0 show ?thesis by (simp add: prefix_sum_def)
  next
    case (Suc j)
    with Cons.prems have j: "j < length vs"
      and lt: "unat t + (unat v + prefix_sum j vs) < 2 ^ 64"
      and ge: "2 ^ 64 \<le> unat t + (unat v + prefix_sum (Suc j) vs)"
      by (simp_all add: prefix_sum_def)
    from lt have f: "unat t + unat v < 2 ^ 64" by simp
    note a = AddLovelace_fits [OF f]
    from lt a(2) have lt': "unat (t + v) + prefix_sum j vs < 2 ^ 64" by simp
    from ge a(2) have ge': "2 ^ 64 \<le> unat (t + v) + prefix_sum (Suc j) vs" by simp
    from Cons.IH [OF j lt' ge'] a Suc show ?thesis
      by (simp add: add.assoc prefix_sum_def)
  qed
qed

lemma loop_overflow_fails:
  "2 ^ 64 \<le> unat t + sum_list (map unat vs) \<Longrightarrow> unat t < 2 ^ 64 \<Longrightarrow>
   isl (SumLovelace_loop t vs)"
proof (induction vs arbitrary: t)
  case Nil
  then show ?case by simp
next
  case (Cons v vs)
  show ?case
  proof (cases "unat t + unat v < 2 ^ 64")
    case True
    note a = AddLovelace_fits [OF True]
    from Cons.prems a(2) have "2 ^ 64 \<le> unat (t + v) + sum_list (map unat vs)" by simp
    moreover have "unat (t + v) < 2 ^ 64" using unsigned_less [of "t + v"] by simp
    ultimately have "isl (SumLovelace_loop (t + v) vs)" by (rule Cons.IH)
    with a(1) show ?thesis by simp
  next
    case False
    then have "2 ^ 64 \<le> unat t + unat v" by simp
    from AddLovelace_overflows [OF this] show ?thesis by simp
  qed
qed

lemma prefix_sum_mono: "j \<le> i \<Longrightarrow> prefix_sum j vs \<le> prefix_sum i vs"
proof (induction vs arbitrary: i j)
  case Nil
  then show ?case by (simp add: prefix_sum_def)
next
  case (Cons v vs)
  show ?case
  proof (cases j)
    case 0
    then show ?thesis by (simp add: prefix_sum_def)
  next
    case (Suc j')
    with Cons.prems obtain i' where i: "i = Suc i'" and "j' \<le> i'" by (cases i) auto
    from Cons.IH [OF this(2)] Suc i show ?thesis by (simp add: prefix_sum_def)
  qed
qed

section \<open>The fee formula\<close>

text \<open>
  Claim C1, as stated, fails: on valid parameters and a size within \<open>MaxTxSize\<close> the
  \<open>uint64\<close> multiply-add can wrap. With \<open>MinFeeA = 44\<close>, \<open>MinFeeB = 155381\<close>,
  \<open>MaxTxSize = 2^64 - 1\<close> and a size of \<open>2^63\<close> bytes \<open>MinFee\<close> returns 155381, far
  below \<open>44 * 2^63 + 155381\<close>.
\<close>

theorem MinFee_exact_counterexample:
  "Validate \<lparr>MinFeeA = 44, MinFeeB = 155381, CoinsPerUTxOByte = 4310,
             MaxTxSize = 18446744073709551615\<rparr> = None \<and>
   (1::u64) \<le> 9223372036854775808 \<and>
   (9223372036854775808::u64) \<le> 18446744073709551615 \<and>
   MinFee \<lparr>MinFeeA = 44, MinFeeB = 155381, CoinsPerUTxOByte = 4310,
           MaxTxSize = 18446744073709551615\<rparr> 9223372036854775808 = Inr 155381 \<and>
   (155381::nat) < 44 * 9223372036854775808 + 155381"
  by (simp add: MinFee_def Validate_def)

text \<open>
  Claim C1, amended. For parameters that pass \<open>Validate\<close> and a size between 1 and
  \<open>MaxTxSize\<close>, \<open>MinFee\<close> succeeds; its result is \<open>MinFeeA * txSizeBytes + MinFeeB\<close>
  reduced modulo \<open>2^64\<close>, hence exactly that value whenever the value is below
  \<open>2^64\<close>. For valid parameters it fails with a \<open>FeeError\<close> when the size is zero and
  when it exceeds \<open>MaxTxSize\<close>; for invalid parameters it fails with a \<open>ParamError\<close>.
\<close>

theorem MinFee_formula:
  "(Validate p = None \<and> 1 \<le> txSizeBytes \<and> txSizeBytes \<le> MaxTxSize p \<longrightarrow>
      (\<exists>fee. MinFee p txSizeBytes = Inr fee \<and>
         unat fee = (unat (MinFeeA p) * unat txSizeBytes + unat (MinFeeB p)) mod 2 ^ 64)) \<and>
   (Validate p = None \<and> 1 \<le> txSizeBytes \<and> txSizeBytes \<le> MaxTxSize p \<and>
    unat (MinFeeA p) * unat txSizeBytes + unat (MinFeeB p) < 2 ^ 64 \<longrightarrow>
      (\<exists>fee. MinFee p txSizeBytes = Inr fee \<and>
         unat fee = unat (MinFeeA p) * unat txSizeBytes + unat (MinFeeB p))) \<and>
   (Validate p = None \<and> txSizeBytes = 0 \<longrightarrow>
      (\<exists>r. MinFee p txSizeBytes = Inl (FeeError r))) \<and>
   (Validate p = None \<and> txSizeBytes > MaxTxSize p \<longrightarrow>
      (\<exists>r. MinFee p txSizeBytes = Inl (FeeError r))) \<and>
   (Validate p \<noteq> None \<longrightarrow>
      (\<exists>f m. MinFee p txSizeBytes = Inl (ParamError f m)))"
proof (intro conjI impI)
  assume "Validate p = None \<and> 1 \<le> txSizeBytes \<and> txSizeBytes \<le> MaxTxSize p"
  then have "MinFee p txSizeBytes = Inr (MinFeeA p * txSizeBytes + MinFeeB p)"
    by (simp add: MinFee_valid one_le_word_iff not_less [symmetric])
  then show "\<exists>fee. MinFee p txSizeBytes = Inr fee \<and>
         unat fee = (unat (MinFeeA p) * unat txSizeBytes + unat (MinFeeB p)) mod 2 ^ 64"
    by (simp add: unat_fee)
next
  assume a: "Validate p = None \<and> 1 \<le> txSizeBytes \<and> txSizeBytes \<le> MaxTxSize p \<and>
    unat (MinFeeA p) * unat txSizeBytes + unat (MinFeeB p) < 2 ^ 64"
  then have "MinFee p txSizeBytes = Inr (MinFeeA p * txSizeBytes + MinFeeB p)"
    by (simp add: MinFee_valid one_le_word_iff not_less [symmetric])
  moreover from a
  have "unat (MinFeeA p * txSizeBytes + MinFeeB p) =
          unat (MinFeeA p) * unat txSizeBytes + unat (MinFeeB p)"
    by (simp only: unat_fee mod_less)
  ultimately show "\<exists>fee. MinFee p txSizeBytes = Inr fee \<and>
         unat fee = unat (MinFeeA p) * unat txSizeBytes + unat (MinFeeB p)"
    by simp
next
  assume "Validate p = None \<and> txSizeBytes = 0"
  then show "\<exists>r. MinFee p txSizeBytes = Inl (FeeError r)"
    by (simp add: MinFee_valid)
next
  assume "Validate p = None \<and> txSizeBytes > MaxTxSize p"
  then show "\<exists>r. MinFee p txSizeBytes = Inl (FeeError r)"
    by (simp add: MinFee_valid)
next
  assume "Validate p \<noteq> None"
  then obtain e where e: "Validate p = Some e" by auto
  from Validate_Some_ParamError [OF e] obtain f m where "e = ParamError f m" by auto
  with e show "\<exists>f m. MinFee p txSizeBytes = Inl (ParamError f m)"
    by (simp add: MinFee_invalid)
qed

theorem MinFee_formula_witness:
  "(\<exists>fee. MinFee DefaultMainnetParams 300 = Inr fee \<and> unat fee = 168581) \<and>
   (\<exists>r. MinFee DefaultMainnetParams 0 = Inl (FeeError r)) \<and>
   (\<exists>r. MinFee DefaultMainnetParams 20000 = Inl (FeeError r)) \<and>
   (\<exists>f m. MinFee (DefaultMainnetParams\<lparr>MinFeeB := 0\<rparr>) 300 = Inl (ParamError f m))"
proof -
  have v: "Validate DefaultMainnetParams = None"
    by (rule valid_mainnet)
  have nv: "Validate (DefaultMainnetParams\<lparr>MinFeeB := 0\<rparr>) \<noteq> None"
    by (simp add: Validate_def DefaultMainnetParams_def)
  have a: "(1::u64) \<le> 300 \<and> (300::u64) \<le> MaxTxSize DefaultMainnetParams"
    by (simp add: DefaultMainnetParams_def)
  have b: "(20000::u64) > MaxTxSize DefaultMainnetParams"
    by (simp add: DefaultMainnetParams_def)
  have c: "unat (MinFeeA DefaultMainnetParams) * unat (300::u64) +
             unat (MinFeeB DefaultMainnetParams) = 168581"
    by (simp add: DefaultMainnetParams_def)
  have 1: "\<exists>fee. MinFee DefaultMainnetParams 300 = Inr fee \<and> unat fee = 168581"
    using MinFee_formula [of DefaultMainnetParams 300] v a c by simp
  have 2: "\<exists>r. MinFee DefaultMainnetParams 0 = Inl (FeeError r)"
    using MinFee_formula [of DefaultMainnetParams 0] v by simp
  have 3: "\<exists>r. MinFee DefaultMainnetParams 20000 = Inl (FeeError r)"
    using MinFee_formula [of DefaultMainnetParams 20000] v b by simp
  have 4: "\<exists>f m. MinFee (DefaultMainnetParams\<lparr>MinFeeB := 0\<rparr>) 300 = Inl (ParamError f m)"
    using MinFee_formula [of "DefaultMainnetParams\<lparr>MinFeeB := 0\<rparr>" 300] nv by simp
  from 1 2 3 4 show ?thesis by simp
qed

section \<open>The minUTxO formula on an exact byte count\<close>

text \<open>
  Claim C2, as stated, fails in its general part: the \<open>uint64\<close> sum and product can
  wrap. With the mainnet-like parameters and \<open>n = 2^64 - 160\<close> bytes
  \<open>MinUTxOFromBytes\<close> succeeds with 0, where \<open>(160 + n) * 4310\<close> is \<open>2^64 * 4310\<close>.
\<close>

theorem MinUTxOFromBytes_exact_counterexample:
  "Validate \<lparr>MinFeeA = 44, MinFeeB = 155381, CoinsPerUTxOByte = 4310,
             MaxTxSize = 16384\<rparr> = None \<and>
   (0::u64) < 18446744073709551456 \<and>
   MinUTxOFromBytes \<lparr>MinFeeA = 44, MinFeeB = 155381, CoinsPerUTxOByte = 4310,
                     MaxTxSize = 16384\<rparr> 18446744073709551456 = Inr 0 \<and>
   (0::nat) < (160 + 18446744073709551456) * 4310"
  by (simp add: MinUTxOFromBytes_def Validate_def)

text \<open>
  Claim C2, amended. For parameters that pass \<open>Validate\<close> and a byte count \<open>n > 0\<close>,
  \<open>MinUTxOFromBytes\<close> succeeds; its result is \<open>(160 + n) * CoinsPerUTxOByte\<close> reduced
  modulo \<open>2^64\<close>, hence exactly that value whenever the value is below \<open>2^64\<close>. It
  fails for \<open>n = 0\<close>, with a \<open>MinUTxOError\<close> when the parameters are valid. With the
  mainnet-like parameters \<open>{44, 155381, 4310, 16384}\<close>, \<open>MinFee\<close> of 350 bytes is
  170781 and \<open>MinUTxOFromBytes\<close> of 125 bytes is 1228350.
\<close>

theorem MinUTxOFromBytes_formula:
  "(Validate p = None \<and> n > 0 \<longrightarrow>
      (\<exists>v. MinUTxOFromBytes p n = Inr v \<and>
         unat v = ((160 + unat n) * unat (CoinsPerUTxOByte p)) mod 2 ^ 64)) \<and>
   (Validate p = None \<and> n > 0 \<and> (160 + unat n) * unat (CoinsPerUTxOByte p) < 2 ^ 64 \<longrightarrow>
      (\<exists>v. MinUTxOFromBytes p n = Inr v \<and>
         unat v = (160 + unat n) * unat (CoinsPerUTxOByte p))) \<and>
   isl (MinUTxOFromBytes p 0) \<and>
   (Validate p = None \<longrightarrow> (\<exists>r. MinUTxOFromBytes p 0 = Inl (MinUTxOError r))) \<and>
   MinFee \<lparr>MinFeeA = 44, MinFeeB = 155381, CoinsPerUTxOByte = 4310, MaxTxSize = 16384\<rparr> 350
     = Inr 170781 \<and>
   MinUTxOFromBytes
     \<lparr>MinFeeA = 44, MinFeeB = 155381, CoinsPerUTxOByte = 4310, MaxTxSize = 16384\<rparr> 125
     = Inr 1228350 \<and>
   unat (170781::u64) = 44 * 350 + 155381 \<and>
   unat (1228350::u64) = (160 + 125) * 4310"
proof (intro conjI impI)
  assume "Validate p = None \<and> n > 0"
  then have "MinUTxOFromBytes p n = Inr ((160 + n) * CoinsPerUTxOByte p)"
    by (auto simp: MinUTxOFromBytes_valid)
  then show "\<exists>v. MinUTxOFromBytes p n = Inr v \<and>
         unat v = ((160 + unat n) * unat (CoinsPerUTxOByte p)) mod 2 ^ 64"
    by (simp add: unat_minutxo)
next
  assume a: "Validate p = None \<and> n > 0 \<and>
    (160 + unat n) * unat (CoinsPerUTxOByte p) < 2 ^ 64"
  then have "MinUTxOFromBytes p n = Inr ((160 + n) * CoinsPerUTxOByte p)"
    by (auto simp: MinUTxOFromBytes_valid)
  moreover from a
  have "unat ((160 + n) * CoinsPerUTxOByte p) = (160 + unat n) * unat (CoinsPerUTxOByte p)"
    by (simp only: unat_minutxo mod_less)
  ultimately show "\<exists>v. MinUTxOFromBytes p n = Inr v \<and>
         unat v = (160 + unat n) * unat (CoinsPerUTxOByte p)"
    by simp
next
  show "isl (MinUTxOFromBytes p 0)" by (rule MinUTxOFromBytes_zero)
next
  assume "Validate p = None"
  then show "\<exists>r. MinUTxOFromBytes p 0 = Inl (MinUTxOError r)"
    by (simp add: MinUTxOFromBytes_valid)
next
  show "MinFee \<lparr>MinFeeA = 44, MinFeeB = 155381, CoinsPerUTxOByte = 4310, MaxTxSize = 16384\<rparr> 350
     = Inr 170781"
    by (simp add: MinFee_def Validate_def)
next
  show "MinUTxOFromBytes
     \<lparr>MinFeeA = 44, MinFeeB = 155381, CoinsPerUTxOByte = 4310, MaxTxSize = 16384\<rparr> 125
     = Inr 1228350"
    by (simp add: MinUTxOFromBytes_def Validate_def)
next
  show "unat (170781::u64) = 44 * 350 + 155381" by simp
next
  show "unat (1228350::u64) = (160 + 125) * 4310" by simp
qed

theorem MinUTxOFromBytes_formula_witness:
  "(\<exists>v. MinUTxOFromBytes DefaultMainnetParams 100 = Inr v \<and> unat v = 1120600) \<and>
   (\<exists>r. MinUTxOFromBytes DefaultMainnetParams 0 = Inl (MinUTxOError r))"
proof -
  have v: "Validate DefaultMainnetParams = None"
    by (rule valid_mainnet)
  have c: "(160 + unat (100::u64)) * unat (CoinsPerUTxOByte DefaultMainnetParams) = 1120600"
    by (simp add: DefaultMainnetParams_def)
  have 1: "\<exists>v. MinUTxOFromBytes DefaultMainnetParams 100 = Inr v \<and> unat v = 1120600"
    using MinUTxOFromBytes_formula [of DefaultMainnetParams 100] v c by simp
  have 2: "\<exists>r. MinUTxOFromBytes DefaultMainnetParams 0 = Inl (MinUTxOError r)"
    using MinUTxOFromBytes_formula [of DefaultMainnetParams 100] v by blast
  from 1 2 show ?thesis by simp
qed

section \<open>Overflow\<close>

text \<open>
  Claim C3, as stated, fails: the two formulas do return values reduced modulo
  \<open>2^64\<close>. With \<open>MinFeeA = 2^63\<close>, \<open>MinFeeB = 1\<close> and \<open>MaxTxSize = 2\<close>, \<open>MinFee\<close> of 2
  bytes is 1, not \<open>2^64 + 1\<close>; with \<open>CoinsPerUTxOByte = 2^63\<close>, \<open>MinUTxOFromBytes\<close> of
  96 bytes is 0, not \<open>256 * 2^63\<close>. Neither call reports an error.
\<close>

theorem overflow_wraps_counterexample:
  "MinFee \<lparr>MinFeeA = 9223372036854775808, MinFeeB = 1, CoinsPerUTxOByte = 1,
           MaxTxSize = 2\<rparr> 2 = Inr 1 \<and>
   (1::nat) < 9223372036854775808 * 2 + 1 \<and>
   MinUTxOFromBytes \<lparr>MinFeeA = 1, MinFeeB = 1, CoinsPerUTxOByte = 9223372036854775808,
                     MaxTxSize = 1\<rparr> 96 = Inr 0 \<and>
   (0::nat) < (160 + 96) * 9223372036854775808"
  by (simp add: MinFee_def MinUTxOFromBytes_def Validate_def)

text \<open>
  Claim C3, amended. \<open>AddLovelace\<close> and \<open>SumLovelace\<close> detect overflow: a result they
  return is the exact sum, and they fail whenever the exact sum is \<open>2^64\<close> or more.
  \<open>MinFee\<close> and \<open>MinUTxOFromBytes\<close> do not check: a result they return is the exact
  value of the formula reduced modulo \<open>2^64\<close>, which is the exact value only when
  that is below \<open>2^64\<close>.
\<close>

theorem overflow_behaviour:
  "(AddLovelace a b = Inr c \<longrightarrow> unat c = unat a + unat b) \<and>
   (2 ^ 64 \<le> unat a + unat b \<longrightarrow> isl (AddLovelace a b)) \<and>
   (SumLovelace values = Inr t \<longrightarrow> unat t = sum_list (map unat values)) \<and>
   (2 ^ 64 \<le> sum_list (map unat values) \<longrightarrow> isl (SumLovelace values)) \<and>
   (MinFee p n = Inr fee \<longrightarrow>
      unat fee = (unat (MinFeeA p) * unat n + unat (MinFeeB p)) mod 2 ^ 64) \<and>
   (MinUTxOFromBytes p n = Inr v \<longrightarrow>
      unat v = ((160 + unat n) * unat (CoinsPerUTxOByte p)) mod 2 ^ 64)"
proof (intro conjI impI)
  assume r: "AddLovelace a b = Inr c"
  show "unat c = unat a + unat b"
  proof (cases "unat a + unat b < 2 ^ 64")
    case True
    from AddLovelace_fits [OF True] r show ?thesis by simp
  next
    case False
    then have "2 ^ 64 \<le> unat a + unat b" by simp
    from AddLovelace_overflows [OF this] r show ?thesis by simp
  qed
next
  assume "2 ^ 64 \<le> unat a + unat b"
  from AddLovelace_overflows [OF this] show "isl (AddLovelace a b)" by simp
next
  assume r: "SumLovelace values = Inr t"
  show "unat t = sum_list (map unat values)"
  proof (cases "sum_list (map unat values) < 2 ^ 64")
    case True
    with loop_fits [of 0 "values"] r show ?thesis by (auto simp: SumLovelace_def)
  next
    case False
    then have "2 ^ 64 \<le> unat (0::u64) + sum_list (map unat values)" by simp
    moreover have "unat (0::u64) < 2 ^ 64" by simp
    ultimately have "isl (SumLovelace_loop 0 values)" by (rule loop_overflow_fails)
    with r show ?thesis by (simp add: SumLovelace_def)
  qed
next
  assume "2 ^ 64 \<le> sum_list (map unat values)"
  then have "2 ^ 64 \<le> unat (0::u64) + sum_list (map unat values)" by simp
  moreover have "unat (0::u64) < 2 ^ 64" by simp
  ultimately have "isl (SumLovelace_loop 0 values)" by (rule loop_overflow_fails)
  then show "isl (SumLovelace values)" by (simp add: SumLovelace_def)
next
  assume "MinFee p n = Inr fee"
  from MinFee_Inr [OF this]
  show "unat fee = (unat (MinFeeA p) * unat n + unat (MinFeeB p)) mod 2 ^ 64"
    by (simp add: unat_fee)
next
  assume "MinUTxOFromBytes p n = Inr v"
  from MinUTxOFromBytes_Inr [OF this]
  show "unat v = ((160 + unat n) * unat (CoinsPerUTxOByte p)) mod 2 ^ 64"
    by (simp add: unat_minutxo)
qed

theorem overflow_behaviour_witness:
  "unat (1500000::u64) = unat (1000000::u64) + unat (500000::u64) \<and>
   isl (AddLovelace MaxUint64 1) \<and>
   unat (3500000::u64) = sum_list (map unat [1000000, 2000000, 500000::u64]) \<and>
   isl (SumLovelace [MaxUint64, 1]) \<and>
   unat (170781::u64) =
     (unat (MinFeeA DefaultMainnetParams) * unat (350::u64) +
      unat (MinFeeB DefaultMainnetParams)) mod 2 ^ 64 \<and>
   unat (1228350::u64) =
     ((160 + unat (125::u64)) * unat (CoinsPerUTxOByte DefaultMainnetParams)) mod 2 ^ 64"
proof -
  have a: "AddLovelace 1000000 500000 = Inr 1500000"
    by (simp add: AddLovelace_def MaxUint64_def)
  have b: "(2::nat) ^ 64 \<le> unat MaxUint64 + unat (1::u64)"
    by (simp add: MaxUint64_def)
  have s: "SumLovelace [1000000, 2000000, 500000] = Inr 3500000"
    by (simp add: SumLovelace_def AddLovelace_def MaxUint64_def)
  have o: "(2::nat) ^ 64 \<le> sum_list (map unat [MaxUint64, 1::u64])"
    by (simp add: MaxUint64_def)
  have f: "MinFee DefaultMainnetParams 350 = Inr 170781"
    by (simp add: MinFee_def Validate_def DefaultMainnetParams_def)
  have m: "MinUTxOFromBytes DefaultMainnetParams 125 = Inr 1228350"
    by (simp add: MinUTxOFromBytes_def Validate_def DefaultMainnetParams_def)
  note t1 = overflow_behaviour
    [of 1000000 500000 1500000 "[1000000, 2000000, 500000]" 3500000
        DefaultMainnetParams 350 170781 1228350]
  note t2 = overflow_behaviour
    [of MaxUint64 1 0 "[MaxUint64, 1]" 0 DefaultMainnetParams 125 0 1228350]
  from t1 a have 1: "unat (1500000::u64) = unat (1000000::u64) + unat (500000::u64)"
    by blast
  from t2 b have 2: "isl (AddLovelace MaxUint64 1)" by blast
  from t1 s have 3: "unat (3500000::u64) = sum_list (map unat [1000000, 2000000, 500000::u64])"
    by blast
  from t2 o have 4: "isl (SumLovelace [MaxUint64, 1])" by blast
  from t1 f have 5: "unat (170781::u64) =
     (unat (MinFeeA DefaultMainnetParams) * unat (350::u64) +
      unat (MinFeeB DefaultMainnetParams)) mod 2 ^ 64" by blast
  from t2 m have 6: "unat (1228350::u64) =
     ((160 + unat (125::u64)) * unat (CoinsPerUTxOByte DefaultMainnetParams)) mod 2 ^ 64"
    by blast
  from 1 2 3 4 5 6 show ?thesis by blast
qed

section \<open>Monotonicity of the structural fee estimate\<close>

text \<open>
  Claim C4, as stated, fails: the size estimate and the fee are computed in \<open>uint64\<close>
  and can wrap. With \<open>MinFeeA = 2^63\<close>, \<open>MinFeeB = 1\<close> and \<open>MaxTxSize = 2^64 - 1\<close>, one
  input and one output cost \<open>2^63 + 1\<close>, one input and two outputs cost 1, and adding
  metadata to one input and one output leaves the fee at \<open>2^63 + 1\<close>.
\<close>

theorem EstimateFee_monotone_counterexample:
  "Validate \<lparr>MinFeeA = 9223372036854775808, MinFeeB = 1, CoinsPerUTxOByte = 1,
             MaxTxSize = 18446744073709551615\<rparr> = None \<and>
   EstimateFee \<lparr>MinFeeA = 9223372036854775808, MinFeeB = 1, CoinsPerUTxOByte = 1,
                MaxTxSize = 18446744073709551615\<rparr> 1 1 False = Inr 9223372036854775809 \<and>
   EstimateFee \<lparr>MinFeeA = 9223372036854775808, MinFeeB = 1, CoinsPerUTxOByte = 1,
                MaxTxSize = 18446744073709551615\<rparr> 1 2 False = Inr 1 \<and>
   EstimateFee \<lparr>MinFeeA = 9223372036854775808, MinFeeB = 1, CoinsPerUTxOByte = 1,
                MaxTxSize = 18446744073709551615\<rparr> 1 1 True = Inr 9223372036854775809 \<and>
   (1::u64) \<le> 2 \<and> (1::u64) < 9223372036854775809"
  by (simp add: EstimateFee_def MinFee_def Validate_def Let_def baseTxSize_def
      bytesPerInput_def bytesPerOutput_def metadataSize_def)

text \<open>
  Claim C4, amended. When \<open>EstimateFee\<close> succeeds on both argument tuples and the fee
  of the larger one, computed over the integers as
  \<open>MinFeeA * (200 + 140 * numInputs + 65 * numOutputs [+ 250]) + MinFeeB\<close>, is below
  \<open>2^64\<close>, the result is non-decreasing in \<open>numInputs\<close> and in \<open>numOutputs\<close>, and it
  strictly increases when \<open>hasMetadata\<close> goes from false to true. (A successful call
  implies that the parameters are valid.)
\<close>

theorem EstimateFee_monotone:
  "(EstimateFee p ni no m = Inr f \<and> EstimateFee p ni' no m = Inr f' \<and> ni \<le> ni' \<and>
    unat (MinFeeA p) * estimated_size_exact ni' no m + unat (MinFeeB p) < 2 ^ 64 \<longrightarrow>
      f \<le> f') \<and>
   (EstimateFee p ni no m = Inr g \<and> EstimateFee p ni no' m = Inr g' \<and> no \<le> no' \<and>
    unat (MinFeeA p) * estimated_size_exact ni no' m + unat (MinFeeB p) < 2 ^ 64 \<longrightarrow>
      g \<le> g') \<and>
   (EstimateFee p ni no False = Inr h \<and> EstimateFee p ni no True = Inr h' \<and>
    unat (MinFeeA p) * estimated_size_exact ni no True + unat (MinFeeB p) < 2 ^ 64 \<longrightarrow>
      h < h')"
proof (intro conjI impI)
  assume a: "EstimateFee p ni no m = Inr f \<and> EstimateFee p ni' no m = Inr f' \<and> ni \<le> ni' \<and>
    unat (MinFeeA p) * estimated_size_exact ni' no m + unat (MinFeeB p) < 2 ^ 64"
  then have le: "estimated_size_exact ni no m \<le> estimated_size_exact ni' no m"
    by (simp add: estimated_size_exact_def word_le_nat_alt)
  then have le': "unat (MinFeeA p) * estimated_size_exact ni no m + unat (MinFeeB p)
      \<le> unat (MinFeeA p) * estimated_size_exact ni' no m + unat (MinFeeB p)"
    by simp
  from a have big: "unat f' =
      unat (MinFeeA p) * estimated_size_exact ni' no m + unat (MinFeeB p)"
    by (simp add: EstimateFee_exact)
  from a le' have "unat (MinFeeA p) * estimated_size_exact ni no m + unat (MinFeeB p) < 2 ^ 64"
    by linarith
  with a have "unat f = unat (MinFeeA p) * estimated_size_exact ni no m + unat (MinFeeB p)"
    by (simp add: EstimateFee_exact)
  with big le' show "f \<le> f'" by (simp add: word_le_nat_alt)
next
  assume a: "EstimateFee p ni no m = Inr g \<and> EstimateFee p ni no' m = Inr g' \<and> no \<le> no' \<and>
    unat (MinFeeA p) * estimated_size_exact ni no' m + unat (MinFeeB p) < 2 ^ 64"
  then have le: "estimated_size_exact ni no m \<le> estimated_size_exact ni no' m"
    by (simp add: estimated_size_exact_def word_le_nat_alt)
  then have le': "unat (MinFeeA p) * estimated_size_exact ni no m + unat (MinFeeB p)
      \<le> unat (MinFeeA p) * estimated_size_exact ni no' m + unat (MinFeeB p)"
    by simp
  from a have big: "unat g' =
      unat (MinFeeA p) * estimated_size_exact ni no' m + unat (MinFeeB p)"
    by (simp add: EstimateFee_exact)
  from a le' have "unat (MinFeeA p) * estimated_size_exact ni no m + unat (MinFeeB p) < 2 ^ 64"
    by linarith
  with a have "unat g = unat (MinFeeA p) * estimated_size_exact ni no m + unat (MinFeeB p)"
    by (simp add: EstimateFee_exact)
  with big le' show "g \<le> g'" by (simp add: word_le_nat_alt)
next
  assume a: "EstimateFee p ni no False = Inr h \<and> EstimateFee p ni no True = Inr h' \<and>
    unat (MinFeeA p) * estimated_size_exact ni no True + unat (MinFeeB p) < 2 ^ 64"
  then have v: "Validate p = None" by (auto dest: EstimateFee_Inr)
  have e: "estimated_size_exact ni no True = estimated_size_exact ni no False + 250"
    by (simp add: estimated_size_exact_def)
  from unat_valid_pos(1) [OF v]
  have lt: "unat (MinFeeA p) * estimated_size_exact ni no False + unat (MinFeeB p)
      < unat (MinFeeA p) * estimated_size_exact ni no True + unat (MinFeeB p)"
    by (simp add: e)
  from a have big: "unat h' =
      unat (MinFeeA p) * estimated_size_exact ni no True + unat (MinFeeB p)"
    by (simp add: EstimateFee_exact)
  from a lt
  have "unat (MinFeeA p) * estimated_size_exact ni no False + unat (MinFeeB p) < 2 ^ 64"
    by linarith
  with a have "unat h =
      unat (MinFeeA p) * estimated_size_exact ni no False + unat (MinFeeB p)"
    by (simp add: EstimateFee_exact)
  with big lt show "h < h'" by (simp add: word_less_nat_alt)
qed

theorem EstimateFee_monotone_witness:
  "EstimateFee DefaultMainnetParams 1 1 False = Inr 173201 \<and>
   EstimateFee DefaultMainnetParams 2 1 False = Inr 179361 \<and>
   EstimateFee DefaultMainnetParams 1 2 False = Inr 176061 \<and>
   EstimateFee DefaultMainnetParams 1 1 True = Inr 184201 \<and>
   (173201::u64) \<le> 179361 \<and> (173201::u64) \<le> 176061 \<and> (173201::u64) < 184201"
proof -
  note ev = EstimateFee_def MinFee_def Validate_def Let_def baseTxSize_def
      bytesPerInput_def bytesPerOutput_def metadataSize_def DefaultMainnetParams_def
  have b: "EstimateFee DefaultMainnetParams 1 1 False = Inr 173201" by (simp add: ev)
  have i: "EstimateFee DefaultMainnetParams 2 1 False = Inr 179361" by (simp add: ev)
  have o: "EstimateFee DefaultMainnetParams 1 2 False = Inr 176061" by (simp add: ev)
  have m: "EstimateFee DefaultMainnetParams 1 1 True = Inr 184201" by (simp add: ev)
  have hi: "unat (MinFeeA DefaultMainnetParams) * estimated_size_exact 2 1 False +
              unat (MinFeeB DefaultMainnetParams) < 2 ^ 64"
    by (simp add: estimated_size_exact_def DefaultMainnetParams_def)
  have ho: "unat (MinFeeA DefaultMainnetParams) * estimated_size_exact 1 2 False +
              unat (MinFeeB DefaultMainnetParams) < 2 ^ 64"
    by (simp add: estimated_size_exact_def DefaultMainnetParams_def)
  have hm: "unat (MinFeeA DefaultMainnetParams) * estimated_size_exact 1 1 True +
              unat (MinFeeB DefaultMainnetParams) < 2 ^ 64"
    by (simp add: estimated_size_exact_def DefaultMainnetParams_def)
  have l: "(1::u64) \<le> 2" by simp
  from EstimateFee_monotone
    [of DefaultMainnetParams 1 1 False 173201 2 179361 173201 2 176061 173201 184201]
    b i l hi
  have 1: "(173201::u64) \<le> 179361" by blast
  from EstimateFee_monotone
    [of DefaultMainnetParams 1 1 False 173201 1 173201 173201 2 176061 173201 184201]
    b o l ho
  have 2: "(173201::u64) \<le> 176061" by blast
  from EstimateFee_monotone
    [of DefaultMainnetParams 1 1 False 173201 1 173201 173201 1 173201 173201 184201]
    b m hm
  have 3: "(173201::u64) < 184201" by blast
  from b i o m 1 2 3 show ?thesis by blast
qed

section \<open>The structural fee estimate\<close>

text \<open>
  Claim C5, as stated, fails: the size is computed in \<open>uint64\<close> and can wrap before
  \<open>MinFee\<close> sees it. With the mainnet-like parameters, \<open>2^62\<close> inputs and one output
  the size \<open>200 + 140 * 2^62 + 65\<close> is far above \<open>MaxTxSize = 16384\<close>, so \<open>MinFee\<close> on
  that size fails; \<open>EstimateFee\<close> succeeds with 167041, the fee of 265 bytes.
\<close>

theorem EstimateFee_size_counterexample:
  "EstimateFee \<lparr>MinFeeA = 44, MinFeeB = 155381, CoinsPerUTxOByte = 4310,
                MaxTxSize = 16384\<rparr> 4611686018427387904 1 False = Inr 167041 \<and>
   estimated_size_exact 4611686018427387904 1 False = 200 + 140 * 4611686018427387904 + 65 \<and>
   (16384::nat) < 200 + 140 * 4611686018427387904 + 65 \<and>
   isl (MinFee_spec \<lparr>MinFeeA = 44, MinFeeB = 155381, CoinsPerUTxOByte = 4310,
                     MaxTxSize = 16384\<rparr> (200 + 140 * 4611686018427387904 + 65))"
  by (simp add: EstimateFee_def MinFee_def MinFee_spec_def Validate_def Let_def baseTxSize_def
      bytesPerInput_def bytesPerOutput_def metadataSize_def estimated_size_exact_def)

text \<open>
  Claim C5, amended. \<open>EstimateFee\<close> fails when \<open>numInputs\<close> is zero, when
  \<open>numOutputs\<close> is zero and when the parameters are invalid (then with the
  \<open>ParamError\<close>, which is checked first). Otherwise it returns what \<open>MinFee\<close> returns
  on the size \<open>200 + 140 * numInputs + 65 * numOutputs\<close>, plus 250 with metadata,
  reduced modulo \<open>2^64\<close>: on exactly that size whenever the size is below \<open>2^64\<close>.
\<close>

theorem EstimateFee_spec:
  "(Validate p \<noteq> None \<longrightarrow>
      (\<exists>f m. EstimateFee p numInputs numOutputs hasMetadata = Inl (ParamError f m))) \<and>
   (numInputs = 0 \<or> numOutputs = 0 \<longrightarrow>
      isl (EstimateFee p numInputs numOutputs hasMetadata)) \<and>
   (Validate p = None \<and> (numInputs = 0 \<or> numOutputs = 0) \<longrightarrow>
      (\<exists>r. EstimateFee p numInputs numOutputs hasMetadata = Inl (FeeError r))) \<and>
   (Validate p = None \<and> numInputs \<noteq> 0 \<and> numOutputs \<noteq> 0 \<longrightarrow>
      (\<exists>size. unat size = estimated_size_exact numInputs numOutputs hasMetadata mod 2 ^ 64 \<and>
         EstimateFee p numInputs numOutputs hasMetadata = MinFee p size)) \<and>
   (Validate p = None \<and> numInputs \<noteq> 0 \<and> numOutputs \<noteq> 0 \<and>
    estimated_size_exact numInputs numOutputs hasMetadata < 2 ^ 64 \<longrightarrow>
      (\<exists>size. unat size = estimated_size_exact numInputs numOutputs hasMetadata \<and>
         EstimateFee p numInputs numOutputs hasMetadata = MinFee p size))"
proof (intro conjI impI)
  assume "Validate p \<noteq> None"
  then obtain e where e: "Validate p = Some e" by auto
  from Validate_Some_ParamError [OF e] obtain f m where "e = ParamError f m" by auto
  with e show "\<exists>f m. EstimateFee p numInputs numOutputs hasMetadata = Inl (ParamError f m)"
    by (simp add: EstimateFee_def)
next
  assume "numInputs = 0 \<or> numOutputs = 0"
  then show "isl (EstimateFee p numInputs numOutputs hasMetadata)"
    by (auto simp: EstimateFee_def split: option.split)
next
  assume "Validate p = None \<and> (numInputs = 0 \<or> numOutputs = 0)"
  then show "\<exists>r. EstimateFee p numInputs numOutputs hasMetadata = Inl (FeeError r)"
    by (auto simp: EstimateFee_def)
next
  let ?sz = "200 + 140 * numInputs + 65 * numOutputs + (if hasMetadata then 250 else 0) :: u64"
  assume "Validate p = None \<and> numInputs \<noteq> 0 \<and> numOutputs \<noteq> 0"
  then have "EstimateFee p numInputs numOutputs hasMetadata = MinFee p ?sz"
    by (simp add: EstimateFee_def Let_def baseTxSize_def bytesPerInput_def bytesPerOutput_def
        metadataSize_def)
  moreover have "unat ?sz = estimated_size_exact numInputs numOutputs hasMetadata mod 2 ^ 64"
    by (rule unat_estimated)
  ultimately
  show "\<exists>size. unat size = estimated_size_exact numInputs numOutputs hasMetadata mod 2 ^ 64 \<and>
         EstimateFee p numInputs numOutputs hasMetadata = MinFee p size"
    by blast
next
  let ?sz = "200 + 140 * numInputs + 65 * numOutputs + (if hasMetadata then 250 else 0) :: u64"
  assume a: "Validate p = None \<and> numInputs \<noteq> 0 \<and> numOutputs \<noteq> 0 \<and>
    estimated_size_exact numInputs numOutputs hasMetadata < 2 ^ 64"
  then have "EstimateFee p numInputs numOutputs hasMetadata = MinFee p ?sz"
    by (simp add: EstimateFee_def Let_def baseTxSize_def bytesPerInput_def bytesPerOutput_def
        metadataSize_def)
  moreover from a have "unat ?sz = estimated_size_exact numInputs numOutputs hasMetadata"
    by (simp only: unat_estimated mod_less)
  ultimately
  show "\<exists>size. unat size = estimated_size_exact numInputs numOutputs hasMetadata \<and>
         EstimateFee p numInputs numOutputs hasMetadata = MinFee p size"
    by blast
qed

theorem EstimateFee_spec_witness:
  "(\<exists>size. unat size = 860 \<and> EstimateFee DefaultMainnetParams 2 2 True =
      MinFee DefaultMainnetParams size) \<and>
   (\<exists>r. EstimateFee DefaultMainnetParams 0 1 False = Inl (FeeError r)) \<and>
   (\<exists>r. EstimateFee DefaultMainnetParams 1 0 False = Inl (FeeError r)) \<and>
   (\<exists>f m. EstimateFee (DefaultMainnetParams\<lparr>MinFeeA := 0\<rparr>) 1 1 False =
      Inl (ParamError f m))"
proof -
  have v: "Validate DefaultMainnetParams = None"
    by (rule valid_mainnet)
  have nv: "Validate (DefaultMainnetParams\<lparr>MinFeeA := 0\<rparr>) \<noteq> None"
    by (simp add: Validate_def DefaultMainnetParams_def)
  have e: "estimated_size_exact 2 2 True = 860"
    by (simp add: estimated_size_exact_def)
  have n: "(2::u64) \<noteq> 0" "(1::u64) \<noteq> 0" by simp_all
  from EstimateFee_spec [of DefaultMainnetParams 2 2 True] v n e
  have 1: "\<exists>size. unat size = 860 \<and> EstimateFee DefaultMainnetParams 2 2 True =
      MinFee DefaultMainnetParams size" by simp
  from EstimateFee_spec [of DefaultMainnetParams 0 1 False] v
  have 2: "\<exists>r. EstimateFee DefaultMainnetParams 0 1 False = Inl (FeeError r)" by simp
  from EstimateFee_spec [of DefaultMainnetParams 1 0 False] v
  have 3: "\<exists>r. EstimateFee DefaultMainnetParams 1 0 False = Inl (FeeError r)" by simp
  from EstimateFee_spec [of "DefaultMainnetParams\<lparr>MinFeeA := 0\<rparr>" 1 1 False] nv
  have 4: "\<exists>f m. EstimateFee (DefaultMainnetParams\<lparr>MinFeeA := 0\<rparr>) 1 1 False =
      Inl (ParamError f m)" by simp
  from 1 2 3 4 show ?thesis by blast
qed

section \<open>The NFT output against the ADA-only output\<close>

lemma ADAOnly_bytes:
  "output_bytes_exact (zeroOutputSize\<lparr>AddressBytes := 57\<rparr>) = 76"
  by (simp add: output_bytes_exact_def zeroOutputSize_def)

lemma NFT_bytes:
  "output_bytes_exact (zeroOutputSize\<lparr>AddressBytes := 57, NumPolicies := 1, NumAssets := 1,
                                    TotalAssetNameBytes := n\<rparr>) = 126 + unat n"
  by (simp add: output_bytes_exact_def zeroOutputSize_def)

lemma Bundle_bytes:
  "np \<noteq> 0 \<Longrightarrow>
   output_bytes_exact (zeroOutputSize\<lparr>AddressBytes := 57, NumPolicies := np, NumAssets := na,
                                    TotalAssetNameBytes := nb\<rparr>) = bundle_bytes_exact np na nb"
  by (simp add: output_bytes_exact_def zeroOutputSize_def bundle_bytes_exact_def
      word_greater_zero_iff)

lemma MinUTxOADAOnly_succeeds:
  assumes "Validate p = None"
  shows "\<exists>w. MinUTxOADAOnly p = Inr w"
proof -
  have "output_bytes_exact (zeroOutputSize\<lparr>AddressBytes := 57\<rparr>) < 2 ^ 64"
    by (simp add: ADAOnly_bytes)
  from MinUTxO_succeeds [OF assms this] show ?thesis by (simp add: MinUTxOADAOnly_def)
qed

lemma MinUTxOForNFT_succeeds:
  assumes "Validate p = None" and "n \<le> 32"
  shows "\<exists>v. MinUTxOForNFT p n = Inr v"
proof -
  from assms(2) have "unat n \<le> 32" by (simp add: word_le_nat_alt)
  then have "output_bytes_exact (zeroOutputSize\<lparr>AddressBytes := 57, NumPolicies := 1,
      NumAssets := 1, TotalAssetNameBytes := n\<rparr>) < 2 ^ 64"
    by (simp add: NFT_bytes)
  from MinUTxO_succeeds [OF assms(1) this] assms(2) show ?thesis
    by (simp add: MinUTxOForNFT_def not_less [symmetric])
qed

text \<open>
  Claim C6, as stated, fails in its comparison: both products are computed in
  \<open>uint64\<close> and can wrap. With \<open>CoinsPerUTxOByte = 2^63\<close> the NFT output with an empty
  asset name and the ADA-only output both cost 0, since \<open>286 * 2^63\<close> and
  \<open>236 * 2^63\<close> are multiples of \<open>2^64\<close>.
\<close>

theorem MinUTxOForNFT_counterexample:
  "Validate \<lparr>MinFeeA = 1, MinFeeB = 1, CoinsPerUTxOByte = 9223372036854775808,
             MaxTxSize = 1\<rparr> = None \<and>
   (0::u64) \<le> 32 \<and>
   MinUTxOForNFT \<lparr>MinFeeA = 1, MinFeeB = 1, CoinsPerUTxOByte = 9223372036854775808,
                  MaxTxSize = 1\<rparr> 0 = Inr 0 \<and>
   MinUTxOADAOnly \<lparr>MinFeeA = 1, MinFeeB = 1, CoinsPerUTxOByte = 9223372036854775808,
                   MaxTxSize = 1\<rparr> = Inr 0"
  by (simp add: MinUTxOForNFT_def MinUTxOADAOnly_def MinUTxO_def MinUTxOFromBytes_def
      Validate_def EstimateOutputBytes_def Let_def EstimateOutputBytes_consts
      zeroOutputSize_def)

text \<open>
  Claim C6, amended. \<open>MinUTxOForNFT\<close> fails for every \<open>assetNameLen > 32\<close>. For valid
  parameters and \<open>assetNameLen\<close> in \<open>[0, 32]\<close> it succeeds, and so does
  \<open>MinUTxOADAOnly\<close>; its result strictly exceeds that of \<open>MinUTxOADAOnly\<close> provided
  the NFT amount over the integers, \<open>(160 + 126 + assetNameLen) * CoinsPerUTxOByte\<close>,
  is below \<open>2^64\<close> (126 bytes being the estimate \<open>10 + 57 + 9 + 5 + 28 + 12 + 5\<close> of
  the output without its name).
\<close>

theorem MinUTxOForNFT_exceeds_ADAOnly:
  "(assetNameLen > 32 \<longrightarrow> (\<exists>r. MinUTxOForNFT p assetNameLen = Inl (MinUTxOError r))) \<and>
   (Validate p = None \<and> assetNameLen \<le> 32 \<longrightarrow>
      (\<exists>v. MinUTxOForNFT p assetNameLen = Inr v) \<and> (\<exists>w. MinUTxOADAOnly p = Inr w)) \<and>
   (Validate p = None \<and> assetNameLen \<le> 32 \<and>
    (160 + (10 + 57 + 9 + 5 + 28 + 12 + 5 + unat assetNameLen)) * unat (CoinsPerUTxOByte p)
      < 2 ^ 64 \<longrightarrow>
      (\<exists>v w. MinUTxOForNFT p assetNameLen = Inr v \<and> MinUTxOADAOnly p = Inr w \<and> w < v))"
proof (intro conjI impI)
  assume "assetNameLen > 32"
  then show "\<exists>r. MinUTxOForNFT p assetNameLen = Inl (MinUTxOError r)"
    by (simp add: MinUTxOForNFT_def)
next
  assume "Validate p = None \<and> assetNameLen \<le> 32"
  then show "\<exists>v. MinUTxOForNFT p assetNameLen = Inr v"
    by (simp add: MinUTxOForNFT_succeeds)
next
  assume "Validate p = None \<and> assetNameLen \<le> 32"
  then show "\<exists>w. MinUTxOADAOnly p = Inr w"
    by (simp add: MinUTxOADAOnly_succeeds)
next
  assume a: "Validate p = None \<and> assetNameLen \<le> 32 \<and>
    (160 + (10 + 57 + 9 + 5 + 28 + 12 + 5 + unat assetNameLen)) * unat (CoinsPerUTxOByte p)
      < 2 ^ 64"
  let ?c = "unat (CoinsPerUTxOByte p)"
  let ?nft = "zeroOutputSize\<lparr>AddressBytes := 57, NumPolicies := 1, NumAssets := 1,
                TotalAssetNameBytes := assetNameLen\<rparr>"
  let ?ada = "zeroOutputSize\<lparr>AddressBytes := 57\<rparr>"
  from a obtain v where v: "MinUTxOForNFT p assetNameLen = Inr v"
    using MinUTxOForNFT_succeeds by blast
  from a obtain w where w: "MinUTxOADAOnly p = Inr w"
    using MinUTxOADAOnly_succeeds by blast
  from a have c: "0 < ?c" by (simp add: unat_valid_pos)
  from a have fit: "(160 + (126 + unat assetNameLen)) * ?c < 2 ^ 64" by simp
  from c have lt: "(160 + 76) * ?c < (160 + (126 + unat assetNameLen)) * ?c" by simp
  from v a have "MinUTxO p ?nft = Inr v"
    by (simp add: MinUTxOForNFT_def not_less [symmetric])
  from MinUTxO_exact [OF this] fit
  have uv: "unat v = (160 + (126 + unat assetNameLen)) * ?c" by (simp add: NFT_bytes)
  from w have mw: "MinUTxO p ?ada = Inr w" by (simp add: MinUTxOADAOnly_def)
  from lt fit have fa: "(160 + output_bytes_exact ?ada) * ?c < 2 ^ 64"
    unfolding ADAOnly_bytes by linarith
  from MinUTxO_exact [OF mw fa]
  have uw: "unat w = (160 + 76) * ?c" by (simp only: ADAOnly_bytes)
  from uv uw lt have "w < v" by (simp add: word_less_nat_alt)
  with v w show "\<exists>v w. MinUTxOForNFT p assetNameLen = Inr v \<and> MinUTxOADAOnly p = Inr w \<and> w < v"
    by blast
qed

theorem MinUTxOForNFT_exceeds_ADAOnly_witness:
  "(\<exists>r. MinUTxOForNFT DefaultMainnetParams 33 = Inl (MinUTxOError r)) \<and>
   (\<exists>v w. MinUTxOForNFT DefaultMainnetParams 16 = Inr v \<and>
          MinUTxOADAOnly DefaultMainnetParams = Inr w \<and> w < v)"
proof -
  have v: "Validate DefaultMainnetParams = None" by (rule valid_mainnet)
  have g: "(33::u64) > 32" by simp
  have l: "(16::u64) \<le> 32" by simp
  have f: "(160 + (10 + 57 + 9 + 5 + 28 + 12 + 5 + unat (16::u64))) *
             unat (CoinsPerUTxOByte DefaultMainnetParams) < 2 ^ 64"
    by (simp add: DefaultMainnetParams_def)
  from MinUTxOForNFT_exceeds_ADAOnly [of 33 DefaultMainnetParams] g
  have 1: "\<exists>r. MinUTxOForNFT DefaultMainnetParams 33 = Inl (MinUTxOError r)" by blast
  from MinUTxOForNFT_exceeds_ADAOnly [of 16 DefaultMainnetParams] v l f
  have 2: "\<exists>v w. MinUTxOForNFT DefaultMainnetParams 16 = Inr v \<and>
          MinUTxOADAOnly DefaultMainnetParams = Inr w \<and> w < v" by blast
  from 1 2 show ?thesis by blast
qed

section \<open>Token bundles\<close>

lemma MinUTxOForBundle_Inr:
  "MinUTxOForBundle p np na nb = Inr v \<Longrightarrow>
   np \<noteq> 0 \<and> na \<noteq> 0 \<and>
   MinUTxO p (zeroOutputSize\<lparr>AddressBytes := 57, NumPolicies := np, NumAssets := na,
                              TotalAssetNameBytes := nb\<rparr>) = Inr v"
  by (auto simp: MinUTxOForBundle_def split: if_splits)

lemma MinUTxOForBundle_exact:
  assumes "MinUTxOForBundle p np na nb = Inr v"
    and "(160 + bundle_bytes_exact np na nb) * unat (CoinsPerUTxOByte p) < 2 ^ 64"
  shows "unat v = (160 + bundle_bytes_exact np na nb) * unat (CoinsPerUTxOByte p)"
    and "0 < unat (CoinsPerUTxOByte p)"
proof -
  let ?out = "zeroOutputSize\<lparr>AddressBytes := 57, NumPolicies := np, NumAssets := na,
                TotalAssetNameBytes := nb\<rparr>"
  from MinUTxOForBundle_Inr [OF assms(1)] have np: "np \<noteq> 0"
    and m: "MinUTxO p ?out = Inr v" by simp_all
  from assms(2) have "(160 + output_bytes_exact ?out) * unat (CoinsPerUTxOByte p) < 2 ^ 64"
    by (simp only: Bundle_bytes [OF np])
  from MinUTxO_exact [OF m this]
  show "unat v = (160 + bundle_bytes_exact np na nb) * unat (CoinsPerUTxOByte p)"
    by (simp only: Bundle_bytes [OF np])
  from MinUTxO_Inr [OF m] show "0 < unat (CoinsPerUTxOByte p)"
    by (simp add: unat_valid_pos)
qed

lemma MinUTxOForBundle_less:
  assumes "MinUTxOForBundle p np na nb = Inr v"
    and "MinUTxOForBundle p np' na' nb' = Inr v'"
    and "bundle_bytes_exact np na nb < bundle_bytes_exact np' na' nb'"
    and "(160 + bundle_bytes_exact np' na' nb') * unat (CoinsPerUTxOByte p) < 2 ^ 64"
  shows "v < v'"
proof -
  let ?c = "unat (CoinsPerUTxOByte p)"
  note big = MinUTxOForBundle_exact [OF assms(2) assms(4)]
  from big(2) assms(3)
  have lt: "(160 + bundle_bytes_exact np na nb) * ?c < (160 + bundle_bytes_exact np' na' nb') * ?c"
    by simp
  with assms(4) have "(160 + bundle_bytes_exact np na nb) * ?c < 2 ^ 64" by linarith
  from MinUTxOForBundle_exact(1) [OF assms(1) this] big(1) lt
  show ?thesis by (simp add: word_less_nat_alt)
qed

text \<open>
  Claim C7, as stated, fails in its monotonicity part: the byte estimate and the
  product are computed in \<open>uint64\<close> and can wrap. With \<open>CoinsPerUTxOByte = 2^63\<close> the
  bundles \<open>(1, 1, 0)\<close>, \<open>(1, 1, 2)\<close>, \<open>(3, 1, 0)\<close> and \<open>(1, 3, 0)\<close> all cost 0: each
  estimate plus 160 is even, so the product is a multiple of \<open>2^64\<close>.
\<close>

theorem MinUTxOForBundle_counterexample:
  "Validate \<lparr>MinFeeA = 1, MinFeeB = 1, CoinsPerUTxOByte = 9223372036854775808,
             MaxTxSize = 1\<rparr> = None \<and>
   MinUTxOForBundle \<lparr>MinFeeA = 1, MinFeeB = 1, CoinsPerUTxOByte = 9223372036854775808,
                     MaxTxSize = 1\<rparr> 1 1 0 = Inr 0 \<and>
   MinUTxOForBundle \<lparr>MinFeeA = 1, MinFeeB = 1, CoinsPerUTxOByte = 9223372036854775808,
                     MaxTxSize = 1\<rparr> 1 1 2 = Inr 0 \<and>
   MinUTxOForBundle \<lparr>MinFeeA = 1, MinFeeB = 1, CoinsPerUTxOByte = 9223372036854775808,
                     MaxTxSize = 1\<rparr> 3 1 0 = Inr 0 \<and>
   MinUTxOForBundle \<lparr>MinFeeA = 1, MinFeeB = 1, CoinsPerUTxOByte = 9223372036854775808,
                     MaxTxSize = 1\<rparr> 1 3 0 = Inr 0 \<and>
   (0::u64) < 2 \<and> (1::u64) < 3"
  by (simp add: MinUTxOForBundle_def MinUTxO_def MinUTxOFromBytes_def
      Validate_def EstimateOutputBytes_def Let_def EstimateOutputBytes_consts
      zeroOutputSize_def)

text \<open>
  Claim C7, amended. \<open>MinUTxOForBundle\<close> fails when \<open>numPolicies\<close> is zero or
  \<open>numAssets\<close> is zero. For two successful calls that differ in one of \<open>numPolicies\<close>,
  \<open>numAssets\<close> and \<open>totalAssetNameBytes\<close>, the result of the larger one is strictly
  larger, provided the amount of the larger one over the integers,
  \<open>(160 + 81 + 28 * numPolicies + 17 * numAssets + totalAssetNameBytes) *
  CoinsPerUTxOByte\<close>, is below \<open>2^64\<close>. (A successful call implies that the
  parameters are valid.)
\<close>

theorem MinUTxOForBundle_monotone:
  "(np = 0 \<or> na = 0 \<longrightarrow> (\<exists>r. MinUTxOForBundle p np na nb = Inl (MinUTxOError r))) \<and>
   (MinUTxOForBundle p np na nb = Inr v \<and> MinUTxOForBundle p np' na nb = Inr v1 \<and>
    np < np' \<and>
    (160 + bundle_bytes_exact np' na nb) * unat (CoinsPerUTxOByte p) < 2 ^ 64 \<longrightarrow> v < v1) \<and>
   (MinUTxOForBundle p np na nb = Inr v \<and> MinUTxOForBundle p np na' nb = Inr v2 \<and>
    na < na' \<and>
    (160 + bundle_bytes_exact np na' nb) * unat (CoinsPerUTxOByte p) < 2 ^ 64 \<longrightarrow> v < v2) \<and>
   (MinUTxOForBundle p np na nb = Inr v \<and> MinUTxOForBundle p np na nb' = Inr v3 \<and>
    nb < nb' \<and>
    (160 + bundle_bytes_exact np na nb') * unat (CoinsPerUTxOByte p) < 2 ^ 64 \<longrightarrow> v < v3)"
proof (intro conjI impI)
  assume "np = 0 \<or> na = 0"
  then show "\<exists>r. MinUTxOForBundle p np na nb = Inl (MinUTxOError r)"
    by (auto simp: MinUTxOForBundle_def)
next
  assume a: "MinUTxOForBundle p np na nb = Inr v \<and> MinUTxOForBundle p np' na nb = Inr v1 \<and>
    np < np' \<and>
    (160 + bundle_bytes_exact np' na nb) * unat (CoinsPerUTxOByte p) < 2 ^ 64"
  then have "bundle_bytes_exact np na nb < bundle_bytes_exact np' na nb"
    by (simp add: bundle_bytes_exact_def word_less_nat_alt)
  with a show "v < v1" by (blast intro: MinUTxOForBundle_less)
next
  assume a: "MinUTxOForBundle p np na nb = Inr v \<and> MinUTxOForBundle p np na' nb = Inr v2 \<and>
    na < na' \<and>
    (160 + bundle_bytes_exact np na' nb) * unat (CoinsPerUTxOByte p) < 2 ^ 64"
  then have "bundle_bytes_exact np na nb < bundle_bytes_exact np na' nb"
    by (simp add: bundle_bytes_exact_def word_less_nat_alt)
  with a show "v < v2" by (blast intro: MinUTxOForBundle_less)
next
  assume a: "MinUTxOForBundle p np na nb = Inr v \<and> MinUTxOForBundle p np na nb' = Inr v3 \<and>
    nb < nb' \<and>
    (160 + bundle_bytes_exact np na nb') * unat (CoinsPerUTxOByte p) < 2 ^ 64"
  then have "bundle_bytes_exact np na nb < bundle_bytes_exact np na nb'"
    by (simp add: bundle_bytes_exact_def word_less_nat_alt)
  with a show "v < v3" by (blast intro: MinUTxOForBundle_less)
qed

theorem MinUTxOForBundle_monotone_witness:
  "(\<exists>r. MinUTxOForBundle DefaultMainnetParams 0 1 10 = Inl (MinUTxOError r)) \<and>
   (\<exists>r. MinUTxOForBundle DefaultMainnetParams 1 0 0 = Inl (MinUTxOError r)) \<and>
   MinUTxOForBundle DefaultMainnetParams 1 1 10 = Inr 1275760 \<and>
   MinUTxOForBundle DefaultMainnetParams 2 1 10 = Inr 1396440 \<and>
   MinUTxOForBundle DefaultMainnetParams 1 2 10 = Inr 1349030 \<and>
   MinUTxOForBundle DefaultMainnetParams 1 1 11 = Inr 1280070 \<and>
   (1275760::u64) < 1396440 \<and> (1275760::u64) < 1349030 \<and> (1275760::u64) < 1280070"
proof -
  note ev = MinUTxOForBundle_def MinUTxO_def MinUTxOFromBytes_def
      Validate_def EstimateOutputBytes_def Let_def EstimateOutputBytes_consts
      zeroOutputSize_def DefaultMainnetParams_def
  have b: "MinUTxOForBundle DefaultMainnetParams 1 1 10 = Inr 1275760" by (simp add: ev)
  have b1: "MinUTxOForBundle DefaultMainnetParams 2 1 10 = Inr 1396440" by (simp add: ev)
  have b2: "MinUTxOForBundle DefaultMainnetParams 1 2 10 = Inr 1349030" by (simp add: ev)
  have b3: "MinUTxOForBundle DefaultMainnetParams 1 1 11 = Inr 1280070" by (simp add: ev)
  have h1: "(160 + bundle_bytes_exact 2 1 10) * unat (CoinsPerUTxOByte DefaultMainnetParams)
              < 2 ^ 64"
    by (simp add: bundle_bytes_exact_def DefaultMainnetParams_def)
  have h2: "(160 + bundle_bytes_exact 1 2 10) * unat (CoinsPerUTxOByte DefaultMainnetParams)
              < 2 ^ 64"
    by (simp add: bundle_bytes_exact_def DefaultMainnetParams_def)
  have h3: "(160 + bundle_bytes_exact 1 1 11) * unat (CoinsPerUTxOByte DefaultMainnetParams)
              < 2 ^ 64"
    by (simp add: bundle_bytes_exact_def DefaultMainnetParams_def)
  have l: "(1::u64) < 2" "(10::u64) < 11" by simp_all
  note t = MinUTxOForBundle_monotone
    [of 1 1 DefaultMainnetParams 10 1275760 2 1396440 2 1349030 11 1280070]
  from MinUTxOForBundle_monotone [of 0 1 DefaultMainnetParams 10]
  have 1: "\<exists>r. MinUTxOForBundle DefaultMainnetParams 0 1 10 = Inl (MinUTxOError r)" by blast
  from MinUTxOForBundle_monotone [of 1 0 DefaultMainnetParams 0]
  have 2: "\<exists>r. MinUTxOForBundle DefaultMainnetParams 1 0 0 = Inl (MinUTxOError r)" by blast
  from t b b1 l h1 have 3: "(1275760::u64) < 1396440" by blast
  from t b b2 l h2 have 4: "(1275760::u64) < 1349030" by blast
  from t b b3 l h3 have 5: "(1275760::u64) < 1280070" by blast
  from 1 2 b b1 b2 b3 3 4 5 show ?thesis by blast
qed

section \<open>Summation\<close>

text \<open>
  Claim C8. \<open>SumLovelace\<close> is the left fold of \<open>AddLovelace\<close> from zero; the empty
  sequence sums to 0 without error; when the sum of the first \<open>i\<close> amounts fits in
  \<open>uint64\<close> and adding the amount at position \<open>i\<close> does not, \<open>SumLovelace\<close> fails with
  the error that \<open>AddLovelace\<close> raises at that position, on the sum so far and that
  amount, and returns no wrapped value; every shorter prefix sum fits, so position
  \<open>i\<close> is the first at which the sum overflows. Whenever the whole sum is \<open>2^64\<close> or
  more \<open>SumLovelace\<close> fails; when the whole sum fits, it is returned.
\<close>

theorem SumLovelace_left_fold:
  "SumLovelace values = SumLovelace_fold values \<and>
   SumLovelace [] = Inr 0 \<and>
   (i < length values \<and> prefix_sum i values < 2 ^ 64 \<and> 2 ^ 64 \<le> prefix_sum (Suc i) values \<longrightarrow>
      SumLovelace values =
        Inl (Errorf (''fees: AddLovelace: overflow adding '' @ fmt_d (prefix_sum i values) @
                     '' + '' @ fmt_d (unat (values ! i)))) \<and>
      (\<forall>j<i. prefix_sum (Suc j) values < 2 ^ 64)) \<and>
   (2 ^ 64 \<le> sum_list (map unat values) \<longrightarrow> isl (SumLovelace values)) \<and>
   (sum_list (map unat values) < 2 ^ 64 \<longrightarrow>
      SumLovelace values = Inr (word_of_nat (sum_list (map unat values))))"
proof (intro conjI impI allI)
  show "SumLovelace values = SumLovelace_fold values"
    by (simp add: SumLovelace_def SumLovelace_fold_def loop_is_foldl)
next
  show "SumLovelace [] = Inr 0" by (simp add: SumLovelace_def)
next
  assume "i < length values \<and> prefix_sum i values < 2 ^ 64 \<and> 2 ^ 64 \<le> prefix_sum (Suc i) values"
  then show "SumLovelace values =
        Inl (Errorf (''fees: AddLovelace: overflow adding '' @ fmt_d (prefix_sum i values) @
                     '' + '' @ fmt_d (unat (values ! i))))"
    using loop_overflows [of i "values" 0] by (simp add: SumLovelace_def)
next
  fix j
  assume a: "i < length values \<and> prefix_sum i values < 2 ^ 64 \<and>
    2 ^ 64 \<le> prefix_sum (Suc i) values" and "j < i"
  then have "Suc j \<le> i" by simp
  from prefix_sum_mono [OF this, of "values"] a
  show "prefix_sum (Suc j) values < 2 ^ 64" by linarith
next
  assume "2 ^ 64 \<le> sum_list (map unat values)"
  then have "2 ^ 64 \<le> unat (0::u64) + sum_list (map unat values)" by simp
  moreover have "unat (0::u64) < 2 ^ 64" by simp
  ultimately have "isl (SumLovelace_loop 0 values)" by (rule loop_overflow_fails)
  then show "isl (SumLovelace values)" by (simp add: SumLovelace_def)
next
  assume a: "sum_list (map unat values) < 2 ^ 64"
  with loop_fits [of 0 "values"] obtain r where
    r: "SumLovelace_loop 0 values = Inr r" "unat r = sum_list (map unat values)"
    by auto
  from r(2) a have "r = word_of_nat (sum_list (map unat values))"
    by (simp add: word_unat_eq_iff unat_of_nat)
  with r(1) show "SumLovelace values = Inr (word_of_nat (sum_list (map unat values)))"
    by (simp add: SumLovelace_def)
qed

theorem SumLovelace_left_fold_witness:
  "SumLovelace [5, MaxUint64 - 7, 3, 9] =
     Inl (Errorf (''fees: AddLovelace: overflow adding '' @ fmt_d 18446744073709551613 @
                  '' + '' @ fmt_d 3)) \<and>
   SumLovelace [1000000, 2000000, 500000] = Inr 3500000"
proof -
  have l: "(2::nat) < length [5, MaxUint64 - 7, 3, 9::u64]" by simp
  have p2: "prefix_sum 2 [5, MaxUint64 - 7, 3, 9] = 18446744073709551613"
    by (simp add: prefix_sum_def MaxUint64_def)
  have p3: "prefix_sum (Suc 2) [5, MaxUint64 - 7, 3, 9] = 18446744073709551616"
    by (simp add: prefix_sum_def MaxUint64_def)
  have n: "unat ([5, MaxUint64 - 7, 3, 9::u64] ! 2) = 3" by simp
  have lo: "(18446744073709551613::nat) < 2 ^ 64" by simp
  have hi: "(2::nat) ^ 64 \<le> 18446744073709551616" by simp
  from SumLovelace_left_fold [of "[5, MaxUint64 - 7, 3, 9]" 2]
  have "2 < length [5, MaxUint64 - 7, 3, 9::u64] \<and>
        prefix_sum 2 [5, MaxUint64 - 7, 3, 9] < 2 ^ 64 \<and>
        2 ^ 64 \<le> prefix_sum (Suc 2) [5, MaxUint64 - 7, 3, 9] \<longrightarrow>
        SumLovelace [5, MaxUint64 - 7, 3, 9] =
          Inl (Errorf (''fees: AddLovelace: overflow adding '' @
                       fmt_d (prefix_sum 2 [5, MaxUint64 - 7, 3, 9]) @ '' + '' @
                       fmt_d (unat ([5, MaxUint64 - 7, 3, 9::u64] ! 2))))"
    by (rule conjunct1 [OF conjunct2 [OF conjunct2], THEN imp_conjR [THEN iffD1, THEN conjunct1]])
  with l lo hi have 1: "SumLovelace [5, MaxUint64 - 7, 3, 9] =
     Inl (Errorf (''fees: AddLovelace: overflow adding '' @ fmt_d 18446744073709551613 @
                  '' + '' @ fmt_d 3))"
    unfolding p2 p3 n by blast
  have s: "sum_list (map unat [1000000, 2000000, 500000::u64]) = 3500000" by simp
  have s': "sum_list (map unat [1000000, 2000000, 500000::u64]) < 2 ^ 64" by simp
  from SumLovelace_left_fold [of "[1000000, 2000000, 500000]" 0] s'
  have "SumLovelace [1000000, 2000000, 500000] =
          Inr (word_of_nat (sum_list (map unat [1000000, 2000000, 500000::u64])))"
    by blast
  then have 2: "SumLovelace [1000000, 2000000, 500000] = Inr 3500000"
    unfolding s by simp
  from 1 2 show ?thesis by blast
qed

section \<open>Padding\<close>

lemma MinFee_refines_failure:
  "isl (MinFee p n) = isl (MinFee_spec p (unat n))"
  by (simp add: MinFee_def MinFee_spec_def word_less_nat_alt unat_eq_zero
      split: option.split)

lemma MinFee_refines:
  assumes "unat (MinFeeA p) * unat n + unat (MinFeeB p) < 2 ^ 64"
  shows "map_sum id unat (MinFee p n) = MinFee_spec p (unat n)"
proof -
  from assms have "unat (MinFeeA p * n + MinFeeB p) =
      unat (MinFeeA p) * unat n + unat (MinFeeB p)"
    by (simp only: unat_fee mod_less)
  then show ?thesis
    by (simp add: MinFee_def MinFee_spec_def word_less_nat_alt unat_eq_zero
        split: option.split)
qed

text \<open>
  Claim C9, as stated, fails: the padded total is the \<open>uint64\<close> sum and can wrap, and
  then the failure conditions are those of the wrapped total. With the mainnet-like
  parameters, \<open>x = 2^64 - 1\<close> and \<open>y = 301\<close> the padded total \<open>2^64 + 300\<close> exceeds
  \<open>MaxTxSize\<close>, so \<open>MinFee\<close> on it fails; \<open>MinFeeWithPadding\<close> succeeds with 168581,
  the fee of 300 bytes.
\<close>

theorem MinFeeWithPadding_counterexample:
  "MinFeeWithPadding \<lparr>MinFeeA = 44, MinFeeB = 155381, CoinsPerUTxOByte = 4310,
                      MaxTxSize = 16384\<rparr> 18446744073709551615 301 = Inr 168581 \<and>
   isl (MinFeeWithPadding_spec \<lparr>MinFeeA = 44, MinFeeB = 155381, CoinsPerUTxOByte = 4310,
                                MaxTxSize = 16384\<rparr> 18446744073709551615 301)"
  by (simp add: MinFeeWithPadding_def MinFeeWithPadding_spec_def MinFee_def MinFee_spec_def
      Validate_def)

text \<open>
  Claim C9, amended. For all parameters and all byte counts \<open>x\<close> and \<open>y\<close>,
  \<open>MinFeeWithPadding p x y\<close> is the result of \<open>MinFee\<close> on \<open>x + y\<close> reduced modulo
  \<open>2^64\<close>. When \<open>x + y\<close> is below \<open>2^64\<close> it fails exactly when \<open>MinFee\<close>, read over the
  integers, fails on the padded total; when the fee of the padded total is below
  \<open>2^64\<close> as well, the two agree on the value or the error.
\<close>

theorem MinFeeWithPadding_delegates:
  "MinFeeWithPadding p x y = MinFee p (x + y) \<and>
   unat (x + y) = (unat x + unat y) mod 2 ^ 64 \<and>
   (unat x + unat y < 2 ^ 64 \<longrightarrow>
      unat (x + y) = unat x + unat y \<and>
      isl (MinFeeWithPadding p x y) = isl (MinFeeWithPadding_spec p x y)) \<and>
   (unat x + unat y < 2 ^ 64 \<and>
    unat (MinFeeA p) * (unat x + unat y) + unat (MinFeeB p) < 2 ^ 64 \<longrightarrow>
      map_sum id unat (MinFeeWithPadding p x y) = MinFeeWithPadding_spec p x y)"
proof (intro conjI impI)
  show "MinFeeWithPadding p x y = MinFee p (x + y)"
    by (simp add: MinFeeWithPadding_def)
next
  show "unat (x + y) = (unat x + unat y) mod 2 ^ 64"
    by (simp add: unat_word_ariths)
next
  assume "unat x + unat y < 2 ^ 64"
  then show "unat (x + y) = unat x + unat y"
    using unat_add_lem [of x y] by simp
next
  assume "unat x + unat y < 2 ^ 64"
  then have "unat (x + y) = unat x + unat y"
    using unat_add_lem [of x y] by simp
  then show "isl (MinFeeWithPadding p x y) = isl (MinFeeWithPadding_spec p x y)"
    by (simp add: MinFeeWithPadding_def MinFeeWithPadding_spec_def MinFee_refines_failure)
next
  assume a: "unat x + unat y < 2 ^ 64 \<and>
    unat (MinFeeA p) * (unat x + unat y) + unat (MinFeeB p) < 2 ^ 64"
  then have s: "unat (x + y) = unat x + unat y"
    using unat_add_lem [of x y] by simp
  with a have "unat (MinFeeA p) * unat (x + y) + unat (MinFeeB p) < 2 ^ 64" by simp
  from MinFee_refines [OF this] s
  show "map_sum id unat (MinFeeWithPadding p x y) = MinFeeWithPadding_spec p x y"
    by (simp add: MinFeeWithPadding_def MinFeeWithPadding_spec_def)
qed

theorem MinFeeWithPadding_delegates_witness:
  "unat ((200::u64) + 100) = unat (200::u64) + unat (100::u64) \<and>
   isl (MinFeeWithPadding DefaultMainnetParams 200 100) =
     isl (MinFeeWithPadding_spec DefaultMainnetParams 200 100) \<and>
   map_sum id unat (MinFeeWithPadding DefaultMainnetParams 200 100) =
     MinFeeWithPadding_spec DefaultMainnetParams 200 100 \<and>
   MinFeeWithPadding_spec DefaultMainnetParams 200 100 = Inr 168581"
proof -
  have a: "unat (200::u64) + unat (100::u64) < 2 ^ 64" by simp
  have b: "unat (MinFeeA DefaultMainnetParams) * (unat (200::u64) + unat (100::u64)) +
             unat (MinFeeB DefaultMainnetParams) < 2 ^ 64"
    by (simp add: DefaultMainnetParams_def)
  have c: "MinFeeWithPadding_spec DefaultMainnetParams 200 100 = Inr 168581"
    by (simp add: MinFeeWithPadding_spec_def MinFee_spec_def valid_mainnet)
      (simp add: DefaultMainnetParams_def)
  from MinFeeWithPadding_delegates [of DefaultMainnetParams 200 100] a b c
  show ?thesis by blast
qed

section \<open>The zero-byte branch\<close>

lemma MinUTxO_not_zero_bytes:
  assumes "output_bytes_exact out < 2 ^ 64"
  shows "MinUTxO p out \<noteq> Inl (MinUTxOError ''serializedOutputBytes must be greater than zero'')"
proof (cases "Validate p")
  case None
  from MinUTxO_succeeds [OF None assms] show ?thesis by simp
next
  case (Some e)
  from Validate_Some_ParamError [OF Some] obtain f m where "e = ParamError f m" by auto
  with Some show ?thesis by (simp add: MinUTxO_def)
qed

text \<open>
  Claim C10, as stated, fails: the estimate is a \<open>uint64\<close> sum and can wrap to any
  value. For an output whose address length is \<open>2^64 - 19\<close> and that holds nothing
  else, \<open>EstimateOutputBytes\<close> returns 0, and \<open>MinUTxO\<close> and \<open>IsAboveMinUTxO\<close> on the
  mainnet-like parameters fail in the zero-byte branch of \<open>MinUTxOFromBytes\<close>; so does
  \<open>MinUTxOForBundle\<close> on one policy, one asset and \<open>2^64 - 126\<close> name bytes.
\<close>

theorem EstimateOutputBytes_zero_counterexample:
  "EstimateOutputBytes (zeroOutputSize\<lparr>AddressBytes := 18446744073709551597\<rparr>) = 0 \<and>
   Validate DefaultMainnetParams = None \<and>
   MinUTxO DefaultMainnetParams (zeroOutputSize\<lparr>AddressBytes := 18446744073709551597\<rparr>) =
     Inl (MinUTxOError ''serializedOutputBytes must be greater than zero'') \<and>
   IsAboveMinUTxO DefaultMainnetParams 2000000
       (zeroOutputSize\<lparr>AddressBytes := 18446744073709551597\<rparr>) =
     Inl (MinUTxOError ''serializedOutputBytes must be greater than zero'') \<and>
   MinUTxOForBundle DefaultMainnetParams 1 1 18446744073709551490 =
     Inl (MinUTxOError ''serializedOutputBytes must be greater than zero'')"
  by (simp add: IsAboveMinUTxO_def MinUTxOForBundle_def MinUTxO_def MinUTxOFromBytes_def
      Validate_def EstimateOutputBytes_def Let_def EstimateOutputBytes_consts
      zeroOutputSize_def DefaultMainnetParams_def)

text \<open>
  Claim C10, amended. For every \<open>OutputSize\<close> whose estimate over the integers is
  below \<open>2^64\<close>, \<open>EstimateOutputBytes\<close> returns that estimate, which is at least 19
  (envelope 10 plus ADA value 9), so it is positive; then \<open>MinUTxO\<close> and
  \<open>IsAboveMinUTxO\<close> never reach the zero-byte error of \<open>MinUTxOFromBytes\<close>, and
  \<open>MinUTxO\<close> succeeds for every valid \<open>ProtocolParams\<close>. \<open>MinUTxOADAOnly\<close> and
  \<open>MinUTxOForNFT\<close> never reach that error, and \<open>MinUTxOForBundle\<close> does not when the
  estimate of its bundle is below \<open>2^64\<close>.
\<close>

theorem EstimateOutputBytes_positive:
  "(output_bytes_exact out < 2 ^ 64 \<longrightarrow>
      unat (EstimateOutputBytes out) = output_bytes_exact out \<and>
      19 \<le> unat (EstimateOutputBytes out) \<and>
      0 < EstimateOutputBytes out \<and>
      MinUTxO p out \<noteq> Inl (MinUTxOError ''serializedOutputBytes must be greater than zero'') \<and>
      IsAboveMinUTxO p lovelace out \<noteq>
        Inl (MinUTxOError ''serializedOutputBytes must be greater than zero'') \<and>
      (Validate p = None \<longrightarrow> (\<exists>v. MinUTxO p out = Inr v))) \<and>
   MinUTxOADAOnly p \<noteq> Inl (MinUTxOError ''serializedOutputBytes must be greater than zero'') \<and>
   MinUTxOForNFT p assetNameLen \<noteq>
     Inl (MinUTxOError ''serializedOutputBytes must be greater than zero'') \<and>
   (bundle_bytes_exact np na nb < 2 ^ 64 \<longrightarrow>
      MinUTxOForBundle p np na nb \<noteq>
        Inl (MinUTxOError ''serializedOutputBytes must be greater than zero''))"
proof (intro conjI impI)
  assume a: "output_bytes_exact out < 2 ^ 64"
  from EstimateOutputBytes_fits(1) [OF a]
  show u: "unat (EstimateOutputBytes out) = output_bytes_exact out" .
  from u output_bytes_exact_ge [of out] show "19 \<le> unat (EstimateOutputBytes out)" by simp
  from EstimateOutputBytes_fits(2) [OF a] show "0 < EstimateOutputBytes out"
    by (simp add: word_greater_zero_iff)
  from MinUTxO_not_zero_bytes [OF a]
  show nz: "MinUTxO p out \<noteq>
      Inl (MinUTxOError ''serializedOutputBytes must be greater than zero'')" .
  from nz show "IsAboveMinUTxO p lovelace out \<noteq>
      Inl (MinUTxOError ''serializedOutputBytes must be greater than zero'')"
    by (cases "MinUTxO p out") (auto simp: IsAboveMinUTxO_def)
next
  assume "output_bytes_exact out < 2 ^ 64" and "Validate p = None"
  from MinUTxO_succeeds [OF this(2) this(1)] show "\<exists>v. MinUTxO p out = Inr v" by simp
next
  have "output_bytes_exact (zeroOutputSize\<lparr>AddressBytes := 57\<rparr>) < 2 ^ 64"
    by (simp add: ADAOnly_bytes)
  from MinUTxO_not_zero_bytes [OF this]
  show "MinUTxOADAOnly p \<noteq>
      Inl (MinUTxOError ''serializedOutputBytes must be greater than zero'')"
    by (simp add: MinUTxOADAOnly_def)
next
  show "MinUTxOForNFT p assetNameLen \<noteq>
     Inl (MinUTxOError ''serializedOutputBytes must be greater than zero'')"
  proof (cases "assetNameLen > 32")
    case True
    then show ?thesis by (simp add: MinUTxOForNFT_def)
  next
    case False
    then have "unat assetNameLen \<le> 32" by (simp add: word_less_nat_alt)
    then have "output_bytes_exact (zeroOutputSize\<lparr>AddressBytes := 57, NumPolicies := 1,
        NumAssets := 1, TotalAssetNameBytes := assetNameLen\<rparr>) < 2 ^ 64"
      by (simp add: NFT_bytes)
    from MinUTxO_not_zero_bytes [OF this] False show ?thesis
      by (simp add: MinUTxOForNFT_def)
  qed
next
  assume a: "bundle_bytes_exact np na nb < 2 ^ 64"
  show "MinUTxOForBundle p np na nb \<noteq>
        Inl (MinUTxOError ''serializedOutputBytes must be greater than zero'')"
  proof (cases "np = 0 \<or> na = 0")
    case True
    then show ?thesis by (auto simp: MinUTxOForBundle_def)
  next
    case False
    with a have "output_bytes_exact (zeroOutputSize\<lparr>AddressBytes := 57, NumPolicies := np,
        NumAssets := na, TotalAssetNameBytes := nb\<rparr>) < 2 ^ 64"
      by (simp add: Bundle_bytes)
    from MinUTxO_not_zero_bytes [OF this] False show ?thesis
      by (simp add: MinUTxOForBundle_def)
  qed
qed

theorem EstimateOutputBytes_positive_witness:
  "unat (EstimateOutputBytes (zeroOutputSize\<lparr>AddressBytes := 57\<rparr>)) = 76 \<and>
   19 \<le> unat (EstimateOutputBytes (zeroOutputSize\<lparr>AddressBytes := 57\<rparr>)) \<and>
   (\<exists>v. MinUTxO DefaultMainnetParams (zeroOutputSize\<lparr>AddressBytes := 57\<rparr>) = Inr v) \<and>
   MinUTxOForBundle DefaultMainnetParams 2 5 80 \<noteq>
     Inl (MinUTxOError ''serializedOutputBytes must be greater than zero'')"
proof -
  have e: "output_bytes_exact (zeroOutputSize\<lparr>AddressBytes := 57\<rparr>) = 76"
    by (rule ADAOnly_bytes)
  have a: "output_bytes_exact (zeroOutputSize\<lparr>AddressBytes := 57\<rparr>) < 2 ^ 64"
    by (simp add: ADAOnly_bytes)
  have b: "bundle_bytes_exact 2 5 80 < 2 ^ 64"
    by (simp add: bundle_bytes_exact_def)
  from EstimateOutputBytes_positive
    [of "zeroOutputSize\<lparr>AddressBytes := 57\<rparr>" DefaultMainnetParams 0 0 2 5 80]
    a b valid_mainnet e
  show ?thesis by simp
qed

end
